theory Spec2Isabelle
  imports Complex_Main "HOL-Library.List_Lexorder" "HOL-Library.Char_ord"
begin

section \<open>JavaScript values\<close>

text \<open>
  The fields of a JSON request body as the handlers of
  \<^verbatim>\<open>routes/reservations.js\<close> see them. Numbers are the integers; arrays and objects
  are not modelled.
\<close>

datatype jsval = JUndefined | JNull | JBool bool | JNum int | JStr string

text \<open>\<^verbatim>\<open>if (v)\<close>: ToBoolean.\<close>

fun truthy :: "jsval \<Rightarrow> bool" where
  "truthy JUndefined = False"
| "truthy JNull = False"
| "truthy (JBool b) = b"
| "truthy (JNum n) = (n \<noteq> 0)"
| "truthy (JStr s) = (s \<noteq> [])"

text \<open>\<^verbatim>\<open>a || b\<close>.\<close>

definition js_or :: "jsval \<Rightarrow> jsval \<Rightarrow> jsval" where
  "js_or a b = (if truthy a then a else b)"

text \<open>
  An integer or \<^verbatim>\<open>NaN\<close>, which is \<open>None\<close>: what \<^verbatim>\<open>parseInt\<close> gives for all but the
  digit strings too long for a finite number. In a response \<open>None\<close> is \<^verbatim>\<open>null\<close>, which
  \<^verbatim>\<open>res.json\<close> writes for every number that is not finite.
\<close>

type_synonym jsnum = "int option"

text \<open>
  A number with the infinities: all the values of \<^verbatim>\<open>parseInt\<close>. Integers are exact.
\<close>

datatype number = Finite int | NaN | Infinity | MinusInfinity

definition number_of :: "jsnum \<Rightarrow> number" where
  "number_of k = (case k of None \<Rightarrow> NaN | Some i \<Rightarrow> Finite i)"

text \<open>What \<^verbatim>\<open>res.json\<close> writes for a number.\<close>

fun json :: "number \<Rightarrow> jsnum" where
  "json (Finite i) = Some i"
| "json NaN = None"
| "json Infinity = None"
| "json MinusInfinity = None"

text \<open>The sign of a number that is not \<^verbatim>\<open>NaN\<close>.\<close>

fun sign_of :: "number \<Rightarrow> int" where
  "sign_of (Finite i) = sgn i"
| "sign_of NaN = 0"
| "sign_of Infinity = 1"
| "sign_of MinusInfinity = - 1"

text \<open>\<^verbatim>\<open>a * b\<close>: zero times an infinity is \<^verbatim>\<open>NaN\<close>.\<close>

definition num_mul :: "number \<Rightarrow> number \<Rightarrow> number" where
  "num_mul a b =
     (case (a, b) of
        (NaN, _) \<Rightarrow> NaN
      | (_, NaN) \<Rightarrow> NaN
      | (Finite x, Finite y) \<Rightarrow> Finite (x * y)
      | _ \<Rightarrow> (if sign_of a * sign_of b = 0 then NaN
              else if 0 < sign_of a * sign_of b then Infinity else MinusInfinity))"

text \<open>\<^verbatim>\<open>a + b\<close>: the sum of the two infinities is \<^verbatim>\<open>NaN\<close>.\<close>

definition num_add :: "number \<Rightarrow> number \<Rightarrow> number" where
  "num_add a b =
     (case (a, b) of
        (NaN, _) \<Rightarrow> NaN
      | (_, NaN) \<Rightarrow> NaN
      | (Finite x, Finite y) \<Rightarrow> Finite (x + y)
      | (Finite x, _) \<Rightarrow> b
      | (_, Finite y) \<Rightarrow> a
      | _ \<Rightarrow> (if a = b then a else NaN))"

text \<open>
  \<^verbatim>\<open>Math.ceil(total / limit)\<close> for an integer total \<open>n \<ge> 0\<close>: a total divided by an
  infinity is zero, divided by zero it is an infinity, or \<^verbatim>\<open>NaN\<close> when it is zero.
\<close>

definition num_ceil_div :: "int \<Rightarrow> number \<Rightarrow> number" where
  "num_ceil_div n limit =
     (case limit of
        NaN \<Rightarrow> NaN
      | Finite l \<Rightarrow> if l = 0 then (if n = 0 then NaN else Infinity) else Finite (- ((- n) div l))
      | Infinity \<Rightarrow> Finite 0
      | MinusInfinity \<Rightarrow> Finite 0)"

text \<open>\<^verbatim>\<open>(page - 1) * limit\<close>.\<close>

definition js_offset :: "jsnum \<Rightarrow> jsnum \<Rightarrow> jsnum" where
  "js_offset page limit =
     (case (page, limit) of (Some p, Some l) \<Rightarrow> Some ((p - 1) * l) | _ \<Rightarrow> None)"

text \<open>\<^verbatim>\<open>Math.ceil(total / limit)\<close> for an integer total \<open>n\<close>.\<close>

definition js_ceil_div :: "int \<Rightarrow> jsnum \<Rightarrow> jsnum" where
  "js_ceil_div n limit =
     (case limit of
        None \<Rightarrow> None
      | Some l \<Rightarrow> if l = 0 then None else Some (- ((- n) div l)))"

text \<open>
  \<^verbatim>\<open>xs.slice(start, end)\<close>: a bound that is \<^verbatim>\<open>NaN\<close> counts as 0, a negative bound
  counts from the end of the array, and both are clamped to the array.
\<close>

definition slice_index :: "nat \<Rightarrow> jsnum \<Rightarrow> nat" where
  "slice_index len k =
     (case k of
        None \<Rightarrow> 0
      | Some i \<Rightarrow> if i < 0 then nat (max (int len + i) 0) else min (nat i) len)"

definition slice :: "'a list \<Rightarrow> jsnum \<Rightarrow> jsnum \<Rightarrow> 'a list" where
  "slice xs start stop =
     (let i = slice_index (length xs) start;
          j = slice_index (length xs) stop
      in take (j - i) (drop i xs))"

text \<open>The same with the infinities: \<^verbatim>\<open>Infinity\<close> is the end of the array, \<^verbatim>\<open>-Infinity\<close> its start.\<close>

definition slice_bound :: "nat \<Rightarrow> number \<Rightarrow> nat" where
  "slice_bound len k =
     (case k of
        Finite i \<Rightarrow> slice_index len (Some i)
      | NaN \<Rightarrow> 0
      | Infinity \<Rightarrow> len
      | MinusInfinity \<Rightarrow> 0)"

definition slice_numbers :: "'a list \<Rightarrow> number \<Rightarrow> number \<Rightarrow> 'a list" where
  "slice_numbers xs start stop =
     (let i = slice_bound (length xs) start;
          j = slice_bound (length xs) stop
      in take (j - i) (drop i xs))"

text \<open>The value of a decimal digit.\<close>

definition digit :: "char \<Rightarrow> int option" where
  "digit c =
     (let n = (of_char c :: nat) in if 48 \<le> n \<and> n \<le> 57 then Some (int n - 48) else None)"

text \<open>\<^verbatim>\<open>String(n)\<close> for a natural number.\<close>

fun decimal :: "nat \<Rightarrow> string" where
  "decimal n =
     (if n < 10 then [''0123456789'' ! n]
      else decimal (n div 10) @ [''0123456789'' ! (n mod 10)])"

declare decimal.simps [simp del]

text \<open>
  The string that express-validator hands to a validator: empty for \<^verbatim>\<open>undefined\<close> and
  \<^verbatim>\<open>null\<close>, \<^verbatim>\<open>String(v)\<close> otherwise.
\<close>

fun toString :: "jsval \<Rightarrow> string" where
  "toString JUndefined = []"
| "toString JNull = []"
| "toString (JBool b) = (if b then ''true'' else ''false'')"
| "toString (JNum n) = (if n < 0 then CHR ''-'' # decimal (nat (- n)) else decimal (nat n))"
| "toString (JStr s) = s"

text \<open>
  \<^verbatim>\<open>xs.sort(cmp)\<close>, which is stable: \<open>x\<close> is placed before the first \<open>y\<close> with
  \<open>cmp x y \<le> 0\<close>. The same function orders the rows of an \<^verbatim>\<open>ORDER BY\<close>, where rows
  that compare equal keep the order of the table.
\<close>

fun insert_by :: "('a \<Rightarrow> 'a \<Rightarrow> int) \<Rightarrow> 'a \<Rightarrow> 'a list \<Rightarrow> 'a list" where
  "insert_by cmp x [] = [x]"
| "insert_by cmp x (y # ys) =
     (if cmp x y \<le> 0 then x # y # ys else y # insert_by cmp x ys)"

definition sort_by :: "('a \<Rightarrow> 'a \<Rightarrow> int) \<Rightarrow> 'a list \<Rightarrow> 'a list" where
  "sort_by cmp xs = foldr (insert_by cmp) xs []"

text \<open>
  A comparator is consistent when ``\<open>cmp a b \<le> 0\<close>'' is a total and transitive relation,
  which is what a sort asks of it.
\<close>

definition consistent :: "('a \<Rightarrow> 'a \<Rightarrow> int) \<Rightarrow> bool" where
  "consistent cmp \<longleftrightarrow>
     (\<forall>a b. cmp a b \<le> 0 \<or> cmp b a \<le> 0) \<and>
     (\<forall>a b c. cmp a b \<le> 0 \<and> cmp b c \<le> 0 \<longrightarrow> cmp a c \<le> 0)"

text \<open>\<^verbatim>\<open>rows[0]\<close>, which is \<^verbatim>\<open>undefined\<close> on an empty result.\<close>

definition first_row :: "'a list \<Rightarrow> 'a option" where
  "first_row rows = (case rows of [] \<Rightarrow> None | r # _ \<Rightarrow> Some r)"

section \<open>The runtime\<close>

text \<open>
  What the handlers take from the JavaScript engine, from MySQL and from the libraries
  \<^verbatim>\<open>bcryptjs\<close> and \<^verbatim>\<open>jsonwebtoken\<close>. Times are milliseconds since the epoch.
\<close>

record runtime =
  now :: int                                      \<comment> \<open>the time value of \<^verbatim>\<open>new Date()\<close>\<close>
  tz_offset :: int                                \<comment> \<open>local time minus UTC at \<open>now\<close>, in milliseconds\<close>
  tz_offset_midnight :: int                       \<comment> \<open>local time minus UTC at the start of the local day\<close>
  Date_parse :: "jsval \<Rightarrow> int option"             \<comment> \<open>the time value of \<^verbatim>\<open>new Date(v)\<close>; \<open>None\<close> is \<^verbatim>\<open>NaN\<close>\<close>
  localeCompare :: "string \<Rightarrow> string \<Rightarrow> int"      \<comment> \<open>\<^verbatim>\<open>a.localeCompare(b)\<close>\<close>
  toLowerCase :: "string \<Rightarrow> string"
  sql_like :: "string \<Rightarrow> string \<Rightarrow> bool"          \<comment> \<open>\<^verbatim>\<open>value LIKE pattern\<close>\<close>
  sql_collate :: "string \<Rightarrow> string \<Rightarrow> int"        \<comment> \<open>the collation's order of two strings\<close>
  sql_compare :: "jsval \<Rightarrow> jsval \<Rightarrow> int"          \<comment> \<open>the order of two values of a DATE or TIME column\<close>
  bcrypt_compare :: "jsval \<Rightarrow> string \<Rightarrow> bool option"
    \<comment> \<open>\<^verbatim>\<open>await bcrypt.compare(password, hash)\<close>; \<open>None\<close> when the promise is rejected\<close>
  generateToken :: "int \<Rightarrow> string"
  isISO8601 :: "string \<Rightarrow> bool"                   \<comment> \<open>the validator \<^verbatim>\<open>isISO8601()\<close>\<close>

definition msPerDay :: int where
  "msPerDay = 86400000"

text \<open>
  \<^verbatim>\<open>const today = new Date(); today.setHours(0, 0, 0, 0);\<close> The start of the current
  day in local time, as a time value: the local day is the one of \<open>now\<close>, under the
  offset at \<open>now\<close>, and its start is an instant under the offset in force then, which
  differs on the day the clocks change.
\<close>

definition today :: "runtime \<Rightarrow> int" where
  "today rt = ((now rt + tz_offset rt) div msPerDay) * msPerDay - tz_offset_midnight rt"

text \<open>\<^verbatim>\<open>reservationDate < today\<close>; a comparison with \<^verbatim>\<open>NaN\<close> is false.\<close>

definition date_before :: "int option \<Rightarrow> int \<Rightarrow> bool" where
  "date_before d t = (case d of None \<Rightarrow> False | Some v \<Rightarrow> v < t)"

section \<open>The store\<close>

datatype status = Confirmed | Cancelled | Completed

fun status_name :: "status \<Rightarrow> string" where
  "status_name Confirmed = ''confirmed''"
| "status_name Cancelled = ''cancelled''"
| "status_name Completed = ''completed''"

text \<open>
  The rows of the three tables of \<^verbatim>\<open>createTables\<close>. A rating is in tenths
  (\<^verbatim>\<open>DECIMAL(2,1)\<close>). A reservation's \<open>date\<close>, \<open>time\<close>, \<open>people_count\<close> and
  \<open>special_requests\<close> hold the value that was bound to the statement, \<open>JNull\<close> for
  \<^verbatim>\<open>NULL\<close>; the conversions of MySQL to the column's type are not modelled. The time
  stamps of restaurants and users, which no handler reads, are left out, and every
  restaurant has a cuisine type, as all the rows that the code inserts have.
\<close>

record restaurant =
  rest_id :: int
  rest_name :: string
  rest_location :: string
  rest_description :: string
  rest_image_url :: string
  rest_rating :: int
  rest_price_range :: string
  rest_cuisine_type :: string

record user =
  u_id :: int
  u_name :: string
  u_email :: string
  u_password :: string

record reservation =
  r_id :: int
  r_user_id :: int
  r_restaurant_id :: int
  r_date :: jsval
  r_time :: jsval
  r_people_count :: jsval
  r_status :: status
  r_special_requests :: jsval
  r_created_at :: int
  r_updated_at :: int

text \<open>
  The state of the server: the module variables of \<^verbatim>\<open>config/database.js\<close> and the
  MySQL tables. \<open>pool_up\<close> says whether \<^verbatim>\<open>pool.getConnection()\<close> succeeds;
  \<open>auto_increment\<close> is the next id of the reservations table.
\<close>

record server =
  pool_up :: bool
  isUsingInMemory :: bool
  inMemoryRestaurants :: "restaurant list"
  restaurants :: "restaurant list"
  users :: "user list"
  reservations :: "reservation list"
  auto_increment :: int

section \<open>Responses\<close>

record pagination =
  pg_page :: jsnum
  pg_limit :: jsnum
  pg_total :: int
  pg_pages :: jsnum

text \<open>
  The \<open>data\<close> of a response. A row of a join is the tuple of the rows joined; the
  columns the statement selects are projections of it.
\<close>

datatype payload =
    NoData
  | Created "(reservation \<times> restaurant \<times> user) option"
  | OneReservation "(reservation \<times> restaurant) option"
  | ReservationPage "(reservation \<times> restaurant) list" pagination
  | RestaurantPage "restaurant list" pagination
  | OneRestaurant restaurant
  | Names "string list"
  | Session int string string string

text \<open>
  \<^verbatim>\<open>res.status(code).json({success, message, data})\<close>. The \<open>errors\<close> array of a
  failed validation is left out.
\<close>

datatype response = Response (http_status: nat) (success: bool) (message: "string option") (data: payload)

definition failure :: "nat \<Rightarrow> string \<Rightarrow> response" where
  "failure code msg = Response code False (Some msg) NoData"

definition internal_error :: response where
  "internal_error = failure 500 ''Internal server error''"

text \<open>The \<open>restaurants\<close> array of a response, empty when it has none.\<close>

definition restaurants_of :: "response \<Rightarrow> restaurant list" where
  "restaurants_of res = (case data res of RestaurantPage rs _ \<Rightarrow> rs | _ \<Rightarrow> [])"

text \<open>The \<open>pagination\<close> of a response, when it has one.\<close>

definition pagination_of :: "response \<Rightarrow> pagination option" where
  "pagination_of res =
     (case data res of
        RestaurantPage _ pg \<Rightarrow> Some pg
      | ReservationPage _ pg \<Rightarrow> Some pg
      | _ \<Rightarrow> None)"

section \<open>Reservations\<close>

text \<open>The body of \<^verbatim>\<open>POST /reservations\<close> and \<^verbatim>\<open>PUT /reservations/:id\<close>.\<close>

record body =
  date :: jsval
  time :: jsval
  people_count :: jsval
  special_requests :: jsval

text \<open>\<^verbatim>\<open>FROM reservations r JOIN restaurants rest ON r.restaurant_id = rest.id\<close>.\<close>

definition join_restaurants :: "server \<Rightarrow> reservation list \<Rightarrow> (reservation \<times> restaurant) list" where
  "join_restaurants s rs =
     concat (map (\<lambda>r. map (Pair r)
       (filter (\<lambda>rest. rest_id rest = r_restaurant_id r) (restaurants s))) rs)"

text \<open>The further \<^verbatim>\<open>JOIN users u ON r.user_id = u.id\<close> of the create handler.\<close>

definition join_users :: "server \<Rightarrow> (reservation \<times> restaurant) list \<Rightarrow> (reservation \<times> restaurant \<times> user) list" where
  "join_users s rows =
     concat (map (\<lambda>(r, rest). map (\<lambda>u. (r, rest, u))
       (filter (\<lambda>u. u_id u = r_user_id r) (users s))) rows)"

text \<open>
  A value that can be stored in a column that is \<^verbatim>\<open>NOT NULL\<close>: the driver refuses a
  bind parameter that is \<^verbatim>\<open>undefined\<close>, MySQL refuses \<^verbatim>\<open>NULL\<close>.
\<close>

definition not_null :: "jsval \<Rightarrow> bool" where
  "not_null v \<longleftrightarrow> v \<noteq> JUndefined \<and> v \<noteq> JNull"

text \<open>
  \<^verbatim>\<open>POST /reservations\<close>. \<open>valid\<close> is \<^verbatim>\<open>validationResult(req).isEmpty()\<close>, the verdict
  of the express-validator chain; \<open>user_id\<close> is \<^verbatim>\<open>req.user.id\<close>, set by the
  authentication middleware before the handler runs; \<open>restaurant_id\<close> is the integer
  MySQL compares the column with. The insert fails, and the handler's \<^verbatim>\<open>catch\<close>
  answers 500, when the foreign key on \<open>user_id\<close> has no row to refer to or when the
  date, the time or the people count cannot be stored.
\<close>

definition create_reservation :: "runtime \<Rightarrow> server \<Rightarrow> bool \<Rightarrow> int \<Rightarrow> int \<Rightarrow> body \<Rightarrow> response \<times> server" where
  "create_reservation rt s valid user_id restaurant_id b =
     (if \<not> valid then (failure 400 ''Validation failed'', s)
      else if \<not> pool_up s then (internal_error, s)
      else if filter (\<lambda>rest. rest_id rest = restaurant_id) (restaurants s) = []
        then (failure 404 ''Restaurant not found'', s)
      else if date_before (Date_parse rt (date b)) (today rt)
        then (failure 400 ''Cannot make reservations for past dates'', s)
      else if filter (\<lambda>u. u_id u = user_id) (users s) = [] \<or>
              \<not> (not_null (date b) \<and> not_null (time b) \<and> not_null (people_count b))
        then (internal_error, s)
      else
        let insertId = auto_increment s;
            row = \<lparr>r_id = insertId, r_user_id = user_id, r_restaurant_id = restaurant_id,
                   r_date = date b, r_time = time b, r_people_count = people_count b,
                   r_status = Confirmed,
                   r_special_requests = js_or (special_requests b) JNull,
                   r_created_at = now rt, r_updated_at = now rt\<rparr>;
            s' = s\<lparr>reservations := reservations s @ [row], auto_increment := insertId + 1\<rparr>;
            rows = join_users s' (join_restaurants s'
                     (filter (\<lambda>r. r_id r = insertId) (reservations s')))
        in (Response 201 True (Some ''Reservation created successfully'')
              (Created (first_row rows)), s'))"

text \<open>
  \<^verbatim>\<open>LIMIT ? OFFSET ?\<close>: MySQL rejects a bound that is not a non-negative integer, and
  the handler's \<^verbatim>\<open>catch\<close> answers 500.
\<close>

definition sql_limit_offset :: "jsnum \<Rightarrow> jsnum \<Rightarrow> 'a list \<Rightarrow> 'a list option" where
  "sql_limit_offset limit offset rows =
     (case (limit, offset) of
        (Some l, Some off) \<Rightarrow>
          if l < 0 \<or> off < 0 then None else Some (take (nat l) (drop (nat off) rows))
      | _ \<Rightarrow> None)"

text \<open>
  \<^verbatim>\<open>status && ['confirmed', 'cancelled', 'completed'].includes(status)\<close>, for the
  \<open>status\<close> of the query string (\<open>None\<close> when it is absent).
\<close>

definition status_filter :: "string option \<Rightarrow> bool" where
  "status_filter st =
     (case st of
        None \<Rightarrow> False
      | Some v \<Rightarrow> v \<noteq> [] \<and> v \<in> set [''confirmed'', ''cancelled'', ''completed''])"

text \<open>The \<^verbatim>\<open>WHERE\<close> clause of both statements of \<^verbatim>\<open>GET /user/reservations\<close>.\<close>

definition user_reservations_where :: "int \<Rightarrow> string option \<Rightarrow> reservation \<Rightarrow> bool" where
  "user_reservations_where user_id st r =
     (r_user_id r = user_id \<and>
      (if status_filter st then Some (status_name (r_status r)) = st else True))"

text \<open>\<^verbatim>\<open>ORDER BY r.date DESC, r.time DESC\<close>.\<close>

definition by_date_time_desc :: "runtime \<Rightarrow> reservation \<times> restaurant \<Rightarrow> reservation \<times> restaurant \<Rightarrow> int" where
  "by_date_time_desc rt a b =
     (let c = sql_compare rt (r_date (fst b)) (r_date (fst a))
      in if c \<noteq> 0 then c else sql_compare rt (r_time (fst b)) (r_time (fst a)))"

text \<open>
  \<^verbatim>\<open>GET /user/reservations\<close>. \<open>page\<close> and \<open>limit\<close> are \<^verbatim>\<open>parseInt(page)\<close> and
  \<^verbatim>\<open>parseInt(limit)\<close>, integers or \<^verbatim>\<open>NaN\<close>.
\<close>

definition list_user_reservations :: "runtime \<Rightarrow> server \<Rightarrow> int \<Rightarrow> string option \<Rightarrow> jsnum \<Rightarrow> jsnum \<Rightarrow> response \<times> server" where
  "list_user_reservations rt s user_id st page limit =
     (if \<not> pool_up s then (internal_error, s)
      else
        case sql_limit_offset limit (js_offset page limit)
               (sort_by (by_date_time_desc rt)
                 (join_restaurants s
                   (filter (user_reservations_where user_id st) (reservations s)))) of
          None \<Rightarrow> (internal_error, s)
        | Some rows \<Rightarrow>
            let n = int (length (filter (user_reservations_where user_id st) (reservations s)))
            in (Response 200 True None
                  (ReservationPage rows
                     \<lparr>pg_page = page, pg_limit = limit, pg_total = n,
                      pg_pages = js_ceil_div n limit\<rparr>), s))"

text \<open>
  \<^verbatim>\<open>GET /reservations/:id\<close>. \<open>i\<close> is the integer MySQL compares the \<open>id\<close> column with.
\<close>

definition get_reservation :: "server \<Rightarrow> int \<Rightarrow> int \<Rightarrow> response \<times> server" where
  "get_reservation s user_id i =
     (if \<not> pool_up s then (internal_error, s)
      else
        case join_restaurants s
               (filter (\<lambda>r. r_id r = i \<and> r_user_id r = user_id) (reservations s)) of
          [] \<Rightarrow> (failure 404 ''Reservation not found'', s)
        | row # _ \<Rightarrow> (Response 200 True None (OneReservation (Some row)), s))"

text \<open>The columns \<^verbatim>\<open>PUT /reservations/:id\<close> can set.\<close>

datatype column = Col_date | Col_time | Col_people_count | Col_special_requests

text \<open>
  \<^verbatim>\<open>updateFields\<close> and \<^verbatim>\<open>updateParams\<close>, before \<^verbatim>\<open>updated_at\<close> is added: the columns
  to set, each with the value bound to it.
\<close>

definition updateFields :: "body \<Rightarrow> (column \<times> jsval) list" where
  "updateFields b =
     (if truthy (date b) then [(Col_date, date b)] else []) @
     (if truthy (time b) then [(Col_time, time b)] else []) @
     (if truthy (people_count b) then [(Col_people_count, people_count b)] else []) @
     (if special_requests b \<noteq> JUndefined
        then [(Col_special_requests, js_or (special_requests b) JNull)] else [])"

fun set_column :: "column \<times> jsval \<Rightarrow> reservation \<Rightarrow> reservation" where
  "set_column (Col_date, v) r = r\<lparr>r_date := v\<rparr>"
| "set_column (Col_time, v) r = r\<lparr>r_time := v\<rparr>"
| "set_column (Col_people_count, v) r = r\<lparr>r_people_count := v\<rparr>"
| "set_column (Col_special_requests, v) r = r\<lparr>r_special_requests := v\<rparr>"

text \<open>
  \<^verbatim>\<open>UPDATE reservations SET ..., updated_at = CURRENT_TIMESTAMP WHERE id = ?\<close>.
\<close>

definition sql_update :: "(column \<times> jsval) list \<Rightarrow> int \<Rightarrow> int \<Rightarrow> reservation list \<Rightarrow> reservation list" where
  "sql_update sets stamp i rows =
     map (\<lambda>r. if r_id r = i then (fold set_column sets r)\<lparr>r_updated_at := stamp\<rparr> else r) rows"

text \<open>\<^verbatim>\<open>PUT /reservations/:id\<close>.\<close>

definition update_reservation :: "runtime \<Rightarrow> server \<Rightarrow> bool \<Rightarrow> int \<Rightarrow> int \<Rightarrow> body \<Rightarrow> response \<times> server" where
  "update_reservation rt s valid user_id i b =
     (if \<not> valid then (failure 400 ''Validation failed'', s)
      else if \<not> pool_up s then (internal_error, s)
      else
        case filter (\<lambda>r. r_id r = i \<and> r_user_id r = user_id) (reservations s) of
          [] \<Rightarrow> (failure 404 ''Reservation not found'', s)
        | reservation # _ \<Rightarrow>
            if r_status reservation = Cancelled \<or> r_status reservation = Completed
              then (failure 400 ''Cannot modify cancelled or completed reservations'', s)
            else if truthy (date b) \<and> date_before (Date_parse rt (date b)) (today rt)
              then (failure 400 ''Cannot modify reservation to a past date'', s)
            else if updateFields b = [] then (failure 400 ''No fields to update'', s)
            else
              let s' = s\<lparr>reservations := sql_update (updateFields b) (now rt) i (reservations s)\<rparr>;
                  rows = join_restaurants s' (filter (\<lambda>r. r_id r = i) (reservations s'))
              in (Response 200 True (Some ''Reservation updated successfully'')
                    (OneReservation (first_row rows)), s'))"

text \<open>
  The validators of the chain of \<^verbatim>\<open>PUT /reservations/:id\<close>, on the string of the
  field. \<^verbatim>\<open>matches(/^([0-1]?[0-9]|2[0-3]):[0-5][0-9]$/)\<close>:
\<close>

definition minutes :: "char \<Rightarrow> char \<Rightarrow> bool" where
  "minutes a b = (case digit a of None \<Rightarrow> False | Some d \<Rightarrow> d \<le> 5 \<and> digit b \<noteq> None)"

definition matches_time :: "string \<Rightarrow> bool" where
  "matches_time str \<longleftrightarrow>
     (length str = 4 \<and> digit (str ! 0) \<noteq> None \<and> str ! 1 = CHR '':'' \<and>
        minutes (str ! 2) (str ! 3)) \<or>
     (length str = 5 \<and>
        (((str ! 0 = CHR ''0'' \<or> str ! 0 = CHR ''1'') \<and> digit (str ! 1) \<noteq> None) \<or>
         (str ! 0 = CHR ''2'' \<and>
            (case digit (str ! 1) of None \<Rightarrow> False | Some d \<Rightarrow> d \<le> 3))) \<and>
        str ! 2 = CHR '':'' \<and> minutes (str ! 3) (str ! 4))"

text \<open>
  \<^verbatim>\<open>isInt({ min, max })\<close>: an optional sign, then \<^verbatim>\<open>0\<close> or digits that do not start
  with \<^verbatim>\<open>0\<close>, and the number within the bounds.
\<close>

definition digits_value :: "string \<Rightarrow> int option" where
  "digits_value ds =
     (if ds \<noteq> [] \<and> list_all (\<lambda>c. digit c \<noteq> None) ds \<and> (ds = ''0'' \<or> hd ds \<noteq> CHR ''0'')
      then Some (foldl (\<lambda>a c. 10 * a + the (digit c)) 0 ds) else None)"

definition isInt :: "int \<Rightarrow> int \<Rightarrow> string \<Rightarrow> bool" where
  "isInt lo hi str =
     (let signed = (str \<noteq> [] \<and> (hd str = CHR ''-'' \<or> hd str = CHR ''+''))
      in case digits_value (if signed then tl str else str) of
           None \<Rightarrow> False
         | Some v \<Rightarrow>
             (let n = (if signed \<and> hd str = CHR ''-'' then - v else v) in lo \<le> n \<and> n \<le> hi))"

text \<open>
  \<^verbatim>\<open>validationResult(req).isEmpty()\<close> for the chain of \<^verbatim>\<open>PUT /reservations/:id\<close>:
  \<^verbatim>\<open>optional()\<close> skips a field only when it is \<^verbatim>\<open>undefined\<close>.
\<close>

definition update_valid :: "runtime \<Rightarrow> body \<Rightarrow> bool" where
  "update_valid rt b \<longleftrightarrow>
     (date b = JUndefined \<or> isISO8601 rt (toString (date b))) \<and>
     (time b = JUndefined \<or> matches_time (toString (time b))) \<and>
     (people_count b = JUndefined \<or> isInt 1 20 (toString (people_count b))) \<and>
     (special_requests b = JUndefined \<or> length (toString (special_requests b)) \<le> 500)"

text \<open>The route \<^verbatim>\<open>PUT /reservations/:id\<close>: the chain, then the handler.\<close>

definition put_reservation :: "runtime \<Rightarrow> server \<Rightarrow> int \<Rightarrow> int \<Rightarrow> body \<Rightarrow> response \<times> server" where
  "put_reservation rt s user_id i b = update_reservation rt s (update_valid rt b) user_id i b"

text \<open>
  \<^verbatim>\<open>UPDATE reservations SET status = 'cancelled', updated_at = CURRENT_TIMESTAMP
  WHERE id = ?\<close>.
\<close>

definition sql_cancel :: "int \<Rightarrow> int \<Rightarrow> reservation list \<Rightarrow> reservation list" where
  "sql_cancel stamp i rows =
     map (\<lambda>r. if r_id r = i then r\<lparr>r_status := Cancelled, r_updated_at := stamp\<rparr> else r) rows"

text \<open>\<^verbatim>\<open>DELETE /reservations/:id\<close>.\<close>

definition cancel_reservation :: "runtime \<Rightarrow> server \<Rightarrow> int \<Rightarrow> int \<Rightarrow> response \<times> server" where
  "cancel_reservation rt s user_id i =
     (if \<not> pool_up s then (internal_error, s)
      else
        case filter (\<lambda>r. r_id r = i \<and> r_user_id r = user_id) (reservations s) of
          [] \<Rightarrow> (failure 404 ''Reservation not found'', s)
        | reservation # _ \<Rightarrow>
            if r_status reservation = Cancelled
              then (failure 400 ''Reservation is already cancelled'', s)
            else
              (Response 200 True (Some ''Reservation cancelled successfully'') NoData,
               s\<lparr>reservations := sql_cancel (now rt) i (reservations s)\<rparr>))"

section \<open>The catalog\<close>

text \<open>
  \<^verbatim>\<open>if (search)\<close> for a parameter of the query string that is a string or absent:
  present and not empty.
\<close>

definition present :: "string option \<Rightarrow> bool" where
  "present q = (case q of None \<Rightarrow> False | Some v \<Rightarrow> v \<noteq> [])"

text \<open>\<^verbatim>\<open>s.includes(t)\<close>.\<close>

fun js_includes :: "string \<Rightarrow> string \<Rightarrow> bool" where
  "js_includes [] t = (t = [])"
| "js_includes (c # cs) t = (take (length t) (c # cs) = t \<or> js_includes cs t)"

text \<open>\<^verbatim>\<open>a + b\<close> on numbers.\<close>

definition js_add :: "jsnum \<Rightarrow> jsnum \<Rightarrow> jsnum" where
  "js_add a b = (case (a, b) of (Some x, Some y) \<Rightarrow> Some (x + y) | _ \<Rightarrow> None)"

text \<open>The three filters of \<^verbatim>\<open>inMemoryQueries.getRestaurants\<close>, applied in turn.\<close>

definition filteredRestaurants :: "runtime \<Rightarrow> restaurant list \<Rightarrow> string option \<Rightarrow> string option \<Rightarrow> string option \<Rightarrow> restaurant list" where
  "filteredRestaurants rt rs search location cuisine =
     (let f1 = (if present search
                then filter (\<lambda>r.
                       js_includes (toLowerCase rt (rest_name r)) (toLowerCase rt (the search)) \<or>
                       js_includes (toLowerCase rt (rest_location r)) (toLowerCase rt (the search))) rs
                else rs);
          f2 = (if present location
                then filter (\<lambda>r.
                       js_includes (toLowerCase rt (rest_location r)) (toLowerCase rt (the location))) f1
                else f1);
          f3 = (if present cuisine
                then filter (\<lambda>r.
                       js_includes (toLowerCase rt (rest_cuisine_type r)) (toLowerCase rt (the cuisine))) f2
                else f2)
      in f3)"

text \<open>
  The comparator of the sort:
  \<^verbatim>\<open>if (b.rating !== a.rating) return b.rating - a.rating; return a.name.localeCompare(b.name);\<close>
\<close>

definition by_rating_name :: "runtime \<Rightarrow> restaurant \<Rightarrow> restaurant \<Rightarrow> int" where
  "by_rating_name rt a b =
     (if rest_rating b \<noteq> rest_rating a then rest_rating b - rest_rating a
      else localeCompare rt (rest_name a) (rest_name b))"

text \<open>\<^verbatim>\<open>inMemoryQueries.getRestaurants(search, location, cuisine, limit, offset)\<close>.\<close>

definition getRestaurants :: "runtime \<Rightarrow> restaurant list \<Rightarrow> string option \<Rightarrow> string option \<Rightarrow> string option \<Rightarrow> jsnum \<Rightarrow> jsnum \<Rightarrow> restaurant list \<times> int" where
  "getRestaurants rt rs search location cuisine limit offset =
     (let sorted_rs = sort_by (by_rating_name rt) (filteredRestaurants rt rs search location cuisine)
      in (slice sorted_rs offset (js_add offset limit), int (length sorted_rs)))"

text \<open>
  The \<^verbatim>\<open>WHERE\<close> clause of both statements of \<^verbatim>\<open>GET /restaurants\<close> on MySQL.
\<close>

definition restaurants_where :: "runtime \<Rightarrow> string option \<Rightarrow> string option \<Rightarrow> string option \<Rightarrow> restaurant \<Rightarrow> bool" where
  "restaurants_where rt search location cuisine r =
     ((present search \<longrightarrow>
         sql_like rt (rest_name r) (''%'' @ the search @ ''%'') \<or>
         sql_like rt (rest_location r) (''%'' @ the search @ ''%'')) \<and>
      (present location \<longrightarrow> sql_like rt (rest_location r) (''%'' @ the location @ ''%'')) \<and>
      (present cuisine \<longrightarrow> sql_like rt (rest_cuisine_type r) (''%'' @ the cuisine @ ''%'')))"

text \<open>\<^verbatim>\<open>ORDER BY rating DESC, name ASC\<close>.\<close>

definition order_by_rating_name :: "runtime \<Rightarrow> restaurant \<Rightarrow> restaurant \<Rightarrow> int" where
  "order_by_rating_name rt a b =
     (if rest_rating b \<noteq> rest_rating a then rest_rating b - rest_rating a
      else sql_collate rt (rest_name a) (rest_name b))"

text \<open>
  The restaurants a search matches, in the order of the listing, before pagination:
  the array the in-memory query slices, or the rows MySQL limits.
\<close>

definition catalog :: "runtime \<Rightarrow> server \<Rightarrow> string option \<Rightarrow> string option \<Rightarrow> string option \<Rightarrow> restaurant list" where
  "catalog rt s search location cuisine =
     (if isUsingInMemory s
      then sort_by (by_rating_name rt)
             (filteredRestaurants rt (inMemoryRestaurants s) search location cuisine)
      else sort_by (order_by_rating_name rt)
             (filter (restaurants_where rt search location cuisine) (restaurants s)))"

text \<open>
  \<^verbatim>\<open>GET /restaurants\<close> for parameters that are strings or absent. \<open>page\<close> and
  \<open>limit\<close> are \<^verbatim>\<open>parseInt(page)\<close> and \<^verbatim>\<open>parseInt(limit)\<close>, integers or \<^verbatim>\<open>NaN\<close>.
\<close>

definition get_restaurants :: "runtime \<Rightarrow> server \<Rightarrow> string option \<Rightarrow> string option \<Rightarrow> string option \<Rightarrow> jsnum \<Rightarrow> jsnum \<Rightarrow> response" where
  "get_restaurants rt s search location cuisine page limit =
     (if isUsingInMemory s then
        (case getRestaurants rt (inMemoryRestaurants s) search location cuisine limit
                (js_offset page limit) of
           (rs, n) \<Rightarrow>
             Response 200 True None
               (RestaurantPage rs
                  \<lparr>pg_page = page, pg_limit = limit, pg_total = n,
                   pg_pages = js_ceil_div n limit\<rparr>))
      else if \<not> pool_up s then internal_error
      else
        case sql_limit_offset limit (js_offset page limit)
               (sort_by (order_by_rating_name rt)
                  (filter (restaurants_where rt search location cuisine) (restaurants s))) of
          None \<Rightarrow> internal_error
        | Some rows \<Rightarrow>
            let n = int (length (filter (restaurants_where rt search location cuisine) (restaurants s)))
            in Response 200 True None
                 (RestaurantPage rows
                    \<lparr>pg_page = page, pg_limit = limit, pg_total = n,
                     pg_pages = js_ceil_div n limit\<rparr>))"

text \<open>
  A parameter of the query string as Express parses it: absent, a string, or, when it
  is given more than once or with brackets, an array or an object, which comes with
  the string a template literal makes of it.
\<close>

datatype query_value = Absent | Text string | Nested string

text \<open>\<^verbatim>\<open>if (search)\<close>: an array or an object is truthy.\<close>

fun given :: "query_value \<Rightarrow> bool" where
  "given Absent = False"
| "given (Text v) = (v \<noteq> [])"
| "given (Nested v) = True"

fun string_of :: "query_value \<Rightarrow> string" where
  "string_of Absent = []"
| "string_of (Text v) = v"
| "string_of (Nested v) = v"

fun text_of :: "query_value \<Rightarrow> string option" where
  "text_of Absent = None"
| "text_of (Text v) = Some v"
| "text_of (Nested v) = Some v"

text \<open>A parameter that is a string or absent, as a query value.\<close>

definition query_of :: "string option \<Rightarrow> query_value" where
  "query_of q = (case q of None \<Rightarrow> Absent | Some v \<Rightarrow> Text v)"

fun nested :: "query_value \<Rightarrow> bool" where
  "nested (Nested v) = True"
| "nested _ = False"

text \<open>
  \<^verbatim>\<open>inMemoryQueries.getRestaurants\<close> on any query: an array or an object has no
  \<^verbatim>\<open>toLowerCase\<close>, so that the call throws, which is \<open>None\<close>.
\<close>

definition getRestaurants_query :: "runtime \<Rightarrow> restaurant list \<Rightarrow> query_value \<Rightarrow> query_value \<Rightarrow> query_value \<Rightarrow> number \<Rightarrow> number \<Rightarrow> (restaurant list \<times> int) option" where
  "getRestaurants_query rt rs search location cuisine limit offset =
     (if nested search \<or> nested location \<or> nested cuisine then None
      else
        let sorted_rs = sort_by (by_rating_name rt)
              (filteredRestaurants rt rs (text_of search) (text_of location) (text_of cuisine))
        in Some (slice_numbers sorted_rs offset (num_add offset limit), int (length sorted_rs)))"

text \<open>The \<^verbatim>\<open>WHERE\<close> clause on any query.\<close>

definition restaurants_where_query :: "runtime \<Rightarrow> query_value \<Rightarrow> query_value \<Rightarrow> query_value \<Rightarrow> restaurant \<Rightarrow> bool" where
  "restaurants_where_query rt search location cuisine r =
     ((given search \<longrightarrow>
         sql_like rt (rest_name r) (''%'' @ string_of search @ ''%'') \<or>
         sql_like rt (rest_location r) (''%'' @ string_of search @ ''%'')) \<and>
      (given location \<longrightarrow> sql_like rt (rest_location r) (''%'' @ string_of location @ ''%'')) \<and>
      (given cuisine \<longrightarrow> sql_like rt (rest_cuisine_type r) (''%'' @ string_of cuisine @ ''%'')))"

text \<open>
  The route \<^verbatim>\<open>GET /restaurants\<close> on any query; \<open>page\<close> and \<open>limit\<close> are
  \<^verbatim>\<open>parseInt(page)\<close> and \<^verbatim>\<open>parseInt(limit)\<close>. On strings and on numbers without the
  infinities it is \<open>get_restaurants\<close>.
\<close>

definition get_restaurants_query :: "runtime \<Rightarrow> server \<Rightarrow> query_value \<Rightarrow> query_value \<Rightarrow> query_value \<Rightarrow> number \<Rightarrow> number \<Rightarrow> response" where
  "get_restaurants_query rt s search location cuisine page limit =
     (if isUsingInMemory s then
        (case getRestaurants_query rt (inMemoryRestaurants s) search location cuisine limit
                (num_mul (num_add page (Finite (- 1))) limit) of
           None \<Rightarrow> internal_error
         | Some (rs, n) \<Rightarrow>
             Response 200 True None
               (RestaurantPage rs
                  \<lparr>pg_page = json page, pg_limit = json limit, pg_total = n,
                   pg_pages = json (num_ceil_div n limit)\<rparr>))
      else if \<not> pool_up s then internal_error
      else
        case sql_limit_offset (json limit) (json (num_mul (num_add page (Finite (- 1))) limit))
               (sort_by (order_by_rating_name rt)
                  (filter (restaurants_where_query rt search location cuisine) (restaurants s))) of
          None \<Rightarrow> internal_error
        | Some rows \<Rightarrow>
            let n = int (length (filter (restaurants_where_query rt search location cuisine)
                      (restaurants s)))
            in Response 200 True None
                 (RestaurantPage rows
                    \<lparr>pg_page = json page, pg_limit = json limit, pg_total = n,
                     pg_pages = json (num_ceil_div n limit)\<rparr>))"

text \<open>
  \<^verbatim>\<open>GET /restaurants/:id\<close>. \<open>parsed\<close> is \<^verbatim>\<open>parseInt(id)\<close>, which the in-memory query
  compares with \<^verbatim>\<open>===\<close>; \<open>i\<close> is the integer MySQL compares the column with.
\<close>

definition get_restaurant :: "server \<Rightarrow> number \<Rightarrow> int \<Rightarrow> response" where
  "get_restaurant s parsed i =
     (if isUsingInMemory s then
        (case filter (\<lambda>r. Finite (rest_id r) = parsed) (inMemoryRestaurants s) of
           [] \<Rightarrow> failure 404 ''Restaurant not found''
         | r # _ \<Rightarrow> Response 200 True None (OneRestaurant r))
      else if \<not> pool_up s then internal_error
      else
        case filter (\<lambda>r. rest_id r = i) (restaurants s) of
          [] \<Rightarrow> failure 404 ''Restaurant not found''
        | r # _ \<Rightarrow> Response 200 True None (OneRestaurant r))"

text \<open>\<^verbatim>\<open>SELECT DISTINCT\<close>: the first row of every class of the collation.\<close>

fun sql_distinct :: "runtime \<Rightarrow> string list \<Rightarrow> string list" where
  "sql_distinct rt [] = []"
| "sql_distinct rt (x # xs) = x # sql_distinct rt (filter (\<lambda>y. sql_collate rt x y \<noteq> 0) xs)"

text \<open>
  \<^verbatim>\<open>GET /restaurants/meta/cuisines\<close> and \<^verbatim>\<open>GET /restaurants/meta/locations\<close>. The
  in-memory queries are \<^verbatim>\<open>[...new Set(xs)].sort()\<close>, which orders strings by their
  code units.
\<close>

definition get_names :: "(restaurant \<Rightarrow> string) \<Rightarrow> runtime \<Rightarrow> server \<Rightarrow> response" where
  "get_names column rt s =
     (if isUsingInMemory s
      then Response 200 True None (Names (sort (remdups (map column (inMemoryRestaurants s)))))
      else if \<not> pool_up s then internal_error
      else Response 200 True None
             (Names (sort_by (sql_collate rt) (sql_distinct rt (map column (restaurants s))))))"

definition get_cuisines :: "runtime \<Rightarrow> server \<Rightarrow> response" where
  "get_cuisines = get_names rest_cuisine_type"

definition get_locations :: "runtime \<Rightarrow> server \<Rightarrow> response" where
  "get_locations = get_names rest_location"

section \<open>Start-up\<close>

text \<open>The six restaurants of \<^verbatim>\<open>createInMemoryData\<close> and \<^verbatim>\<open>insertSampleData\<close>.\<close>

definition sampleRestaurants :: "restaurant list" where
  "sampleRestaurants =
    [\<lparr>rest_id = 1, rest_name = ''The Golden Spoon'',
      rest_location = ''Downtown Manhattan, New York'',
      rest_description = ''Elegant fine dining with contemporary American cuisine and exceptional service.'',
      rest_image_url = ''https://images.unsplash.com/photo-1517248135467-4c7edcad34c4?w=500'',
      rest_rating = 48, rest_price_range = ''$$$'', rest_cuisine_type = ''American''\<rparr>,
     \<lparr>rest_id = 2, rest_name = ''Sakura Sushi'',
      rest_location = ''Little Tokyo, Los Angeles'',
      rest_description = ''Authentic Japanese sushi bar with fresh fish flown in daily from Tokyo.'',
      rest_image_url = ''https://images.unsplash.com/photo-1579584425555-c3ce17fd4351?w=500'',
      rest_rating = 46, rest_price_range = ''$$'', rest_cuisine_type = ''Japanese''\<rparr>,
     \<lparr>rest_id = 3, rest_name = ''Mama Mia Pizzeria'',
      rest_location = ''North End, Boston'',
      rest_description = ''Traditional Italian pizzeria with wood-fired ovens and homemade pasta.'',
      rest_image_url = ''https://images.unsplash.com/photo-1555396273-367ea4eb4db5?w=500'',
      rest_rating = 44, rest_price_range = ''$'', rest_cuisine_type = ''Italian''\<rparr>,
     \<lparr>rest_id = 4, rest_name = ''Le Jardin'',
      rest_location = ''French Quarter, New Orleans'',
      rest_description = ''Romantic French bistro with garden seating and live jazz music.'',
      rest_image_url = ''https://images.unsplash.com/photo-1414235077428-338989a2e8c0?w=500'',
      rest_rating = 47, rest_price_range = ''$$$'', rest_cuisine_type = ''French''\<rparr>,
     \<lparr>rest_id = 5, rest_name = ''Spice Route'',
      rest_location = ''Curry Hill, New York'',
      rest_description = ''Authentic Indian cuisine with traditional spices and vegetarian options.'',
      rest_image_url = ''https://images.unsplash.com/photo-1585937421612-70a008356fbe?w=500'',
      rest_rating = 43, rest_price_range = ''$$'', rest_cuisine_type = ''Indian''\<rparr>,
     \<lparr>rest_id = 6, rest_name = ''Ocean Breeze'',
      rest_location = ''Santa Monica, California'',
      rest_description = ''Fresh seafood restaurant with ocean views and sustainable catches.'',
      rest_image_url = ''https://images.unsplash.com/photo-1559339352-11d035aa65de?w=500'',
      rest_rating = 45, rest_price_range = ''$$$'', rest_cuisine_type = ''Seafood''\<rparr>]"

definition createInMemoryData :: "server \<Rightarrow> server" where
  "createInMemoryData s = s\<lparr>inMemoryRestaurants := sampleRestaurants\<rparr>"

text \<open>
  \<^verbatim>\<open>createTables\<close>: the tables exist from then on, and an empty restaurants table gets
  the sample rows, numbered by the table's counter from 1.
\<close>

definition createTables :: "server \<Rightarrow> server" where
  "createTables s = (if restaurants s = [] then s\<lparr>restaurants := sampleRestaurants\<rparr> else s)"

text \<open>\<^verbatim>\<open>initDatabase\<close>: the \<^verbatim>\<open>catch\<close> switches to the in-memory data.\<close>

definition initDatabase :: "server \<Rightarrow> server" where
  "initDatabase s =
     (if pool_up s then createTables s
      else createInMemoryData (s\<lparr>isUsingInMemory := True\<rparr>))"

section \<open>Login\<close>

text \<open>\<^verbatim>\<open>body('password').notEmpty()\<close>: the string of the field is not empty.\<close>

definition notEmpty :: "jsval \<Rightarrow> bool" where
  "notEmpty v \<longleftrightarrow> toString v \<noteq> []"

text \<open>
  \<^verbatim>\<open>POST /auth/login\<close>. \<open>email_ok\<close> is the verdict of \<^verbatim>\<open>isEmail()\<close> on the body's
  email and \<open>email\<close> the address as \<^verbatim>\<open>normalizeEmail\<close> left it; \<open>password\<close> is the
  body's password, of any type. The statement's \<^verbatim>\<open>WHERE email = ?\<close> compares under the
  collation. When \<^verbatim>\<open>bcrypt.compare\<close> rejects, the handler's \<^verbatim>\<open>catch\<close> answers 500.
\<close>

definition login :: "runtime \<Rightarrow> server \<Rightarrow> bool \<Rightarrow> string \<Rightarrow> jsval \<Rightarrow> response" where
  "login rt s email_ok email password =
     (if \<not> (email_ok \<and> notEmpty password) then failure 400 ''Validation failed''
      else if \<not> pool_up s then internal_error
      else
        case filter (\<lambda>u. sql_collate rt (u_email u) email = 0) (users s) of
          [] \<Rightarrow> failure 401 ''Invalid email or password''
        | user # _ \<Rightarrow>
            (case bcrypt_compare rt password (u_password user) of
               None \<Rightarrow> internal_error
             | Some isPasswordValid \<Rightarrow>
                 if \<not> isPasswordValid then failure 401 ''Invalid email or password''
                 else Response 200 True (Some ''Login successful'')
                        (Session (u_id user) (u_name user) (u_email user)
                           (generateToken rt (u_id user)))))"

section \<open>An example runtime and store\<close>

text \<open>
  A runtime to evaluate the handlers in. \<^verbatim>\<open>new Date(v)\<close> follows ECMAScript on the
  values used below: a string of the form \<^verbatim>\<open>YYYY-MM-DD\<close> is the start of that day in
  UTC, a day past the end of its month running into the next one, and a number is
  the time value itself. Date strings of other forms are not used below, and this
  runtime does not parse them.
\<close>

text \<open>The number of days from 1970-01-01 to a day of the Gregorian calendar.\<close>

definition days_from_civil :: "int \<Rightarrow> int \<Rightarrow> int \<Rightarrow> int" where
  "days_from_civil y m d =
     (let y' = (if m \<le> 2 then y - 1 else y);
          era = y' div 400;
          yoe = y' - era * 400;
          doy = (153 * (if m > 2 then m - 3 else m + 9) + 2) div 5 + d - 1;
          doe = yoe * 365 + yoe div 4 - yoe div 100 + doy
      in era * 146097 + doe - 719468)"

definition parse_date_only :: "string \<Rightarrow> int option" where
  "parse_date_only s =
     (if length s = 10 \<and> s ! 4 = CHR ''-'' \<and> s ! 7 = CHR ''-'' then
        (case map digit [s ! 0, s ! 1, s ! 2, s ! 3, s ! 5, s ! 6, s ! 8, s ! 9] of
           [Some a, Some b, Some c, Some d, Some e, Some f, Some g, Some h] \<Rightarrow>
             (let y = 1000 * a + 100 * b + 10 * c + d; m = 10 * e + f; dd = 10 * g + h
              in if 1 \<le> m \<and> m \<le> 12 \<and> 1 \<le> dd \<and> dd \<le> 31
                 then Some (days_from_civil y m dd * msPerDay) else None)
         | _ \<Rightarrow> None)
      else None)"

fun example_Date :: "jsval \<Rightarrow> int option" where
  "example_Date (JStr s) = parse_date_only s"
| "example_Date (JNum n) = Some n"
| "example_Date (JBool b) = Some (if b then 1 else 0)"
| "example_Date JNull = Some 0"
| "example_Date JUndefined = None"

definition compare_strings :: "string \<Rightarrow> string \<Rightarrow> int" where
  "compare_strings a b = (if a < b then - 1 else if a = b then 0 else 1)"

definition ascii_lower :: "string \<Rightarrow> string" where
  "ascii_lower s =
     map (\<lambda>c. let n = (of_char c :: nat) in if 65 \<le> n \<and> n \<le> 90 then char_of (n + 32) else c) s"

fun like :: "string \<Rightarrow> string \<Rightarrow> bool" where
  "like s [] = (s = [])"
| "like [] (p # ps) = (p = CHR ''%'' \<and> like [] ps)"
| "like (c # cs) (p # ps) =
     (if p = CHR ''%'' then like (c # cs) ps \<or> like cs (p # ps)
      else (p = CHR ''_'' \<or> p = c) \<and> like cs ps)"

text \<open>An order of strings that ignores the case of letters, as many collations do.\<close>

definition compare_ignoring_case :: "string \<Rightarrow> string \<Rightarrow> int" where
  "compare_ignoring_case a b = compare_strings (ascii_lower a) (ascii_lower b)"

text \<open>
  \<^verbatim>\<open>bcrypt.compare\<close> of bcryptjs rejects with ``Illegal arguments'' when the password
  is not a string.
\<close>

fun example_bcrypt :: "jsval \<Rightarrow> string \<Rightarrow> bool option" where
  "example_bcrypt (JStr password) hash = Some (hash = ''hash of '' @ password)"
| "example_bcrypt _ hash = None"

fun compare_values :: "jsval \<Rightarrow> jsval \<Rightarrow> int" where
  "compare_values (JStr a) (JStr b) = compare_strings a b"
| "compare_values _ _ = 0"

text \<open>
  Noon of 15 June 2024 on a server whose local time is five hours behind UTC. Of the
  date strings, \<open>isISO8601\<close> accepts here the form \<^verbatim>\<open>YYYY-MM-DD\<close>.
\<close>

definition example_runtime :: runtime where
  "example_runtime =
     \<lparr>now = 1718470800000, tz_offset = - 18000000, tz_offset_midnight = - 18000000,
      Date_parse = example_Date,
      localeCompare = compare_strings, toLowerCase = ascii_lower,
      sql_like = (\<lambda>v p. like (ascii_lower v) (ascii_lower p)),
      sql_collate = compare_strings, sql_compare = compare_values,
      bcrypt_compare = example_bcrypt,
      generateToken = (\<lambda>userId. ''token''),
      isISO8601 = (\<lambda>str. parse_date_only str \<noteq> None)\<rparr>"

text \<open>The same with an order of names that ignores case.\<close>

definition ignoring_case_runtime :: runtime where
  "ignoring_case_runtime =
     example_runtime\<lparr>localeCompare := compare_ignoring_case,
       sql_collate := compare_ignoring_case\<rparr>"

definition example_users :: "user list" where
  "example_users =
     [\<lparr>u_id = 1, u_name = ''Ann'', u_email = ''ann@example.com'', u_password = ''hash of secret1''\<rparr>,
      \<lparr>u_id = 2, u_name = ''Bob'', u_email = ''bob@example.com'', u_password = ''hash of secret2''\<rparr>]"

definition example_reservations :: "reservation list" where
  "example_reservations =
     [\<lparr>r_id = 1, r_user_id = 1, r_restaurant_id = 1, r_date = JStr ''2024-06-20'',
       r_time = JStr ''19:30'', r_people_count = JNum 4, r_status = Confirmed,
       r_special_requests = JStr ''Window seat please'',
       r_created_at = 1718000000000, r_updated_at = 1718000000000\<rparr>,
      \<lparr>r_id = 2, r_user_id = 1, r_restaurant_id = 2, r_date = JStr ''2024-06-01'',
       r_time = JStr ''20:00'', r_people_count = JNum 2, r_status = Completed,
       r_special_requests = JNull,
       r_created_at = 1717000000000, r_updated_at = 1717300000000\<rparr>,
      \<lparr>r_id = 3, r_user_id = 2, r_restaurant_id = 1, r_date = JStr ''2024-06-25'',
       r_time = JStr ''18:00'', r_people_count = JNum 6, r_status = Cancelled,
       r_special_requests = JNull,
       r_created_at = 1718100000000, r_updated_at = 1718200000000\<rparr>]"

text \<open>A server on MySQL.\<close>

definition example_server :: server where
  "example_server =
     \<lparr>pool_up = True, isUsingInMemory = False, inMemoryRestaurants = [],
      restaurants = sampleRestaurants, users = example_users,
      reservations = example_reservations, auto_increment = 4\<rparr>"

text \<open>A server on MySQL whose restaurants all have the rating 4.5.\<close>

definition level_server :: server where
  "level_server =
     example_server\<lparr>restaurants := map (\<lambda>r. r\<lparr>rest_rating := 45\<rparr>) sampleRestaurants\<rparr>"

text \<open>A server on MySQL with two restaurants of the same rating.\<close>

definition two_names_server :: server where
  "two_names_server =
     example_server\<lparr>restaurants :=
       [\<lparr>rest_id = 1, rest_name = ''Banana'', rest_location = ''Boston'',
         rest_description = [], rest_image_url = [], rest_rating = 45,
         rest_price_range = ''$'', rest_cuisine_type = ''Vegan''\<rparr>,
        \<lparr>rest_id = 2, rest_name = ''apple'', rest_location = ''Boston'',
         rest_description = [], rest_image_url = [], rest_rating = 45,
         rest_price_range = ''$'', rest_cuisine_type = ''Vegan''\<rparr>]\<rparr>"

text \<open>A server that found no MySQL at start-up.\<close>

definition fallback_server :: server where
  "fallback_server =
     initDatabase \<lparr>pool_up = False, isUsingInMemory = False, inMemoryRestaurants = [],
       restaurants = [], users = [], reservations = [], auto_increment = 1\<rparr>"

text \<open>A server without MySQL whose restaurants in memory all have the rating 4.5.\<close>

definition level_fallback_server :: server where
  "level_fallback_server = fallback_server\<lparr>inMemoryRestaurants := restaurants level_server\<rparr>"

section \<open>Properties of updates and cancellations\<close>

lemma owned_update:
  assumes "pool_up s"
    and "filter (\<lambda>r. r_id r = i \<and> r_user_id r = user_id) (reservations s) = x # xs"
    and "r_status x \<noteq> Cancelled" and "r_status x \<noteq> Completed"
  shows "update_reservation rt s True user_id i b =
     (if truthy (date b) \<and> date_before (Date_parse rt (date b)) (today rt)
        then (failure 400 ''Cannot modify reservation to a past date'', s)
      else if updateFields b = [] then (failure 400 ''No fields to update'', s)
      else
        (Response 200 True (Some ''Reservation updated successfully'')
           (OneReservation (first_row (join_restaurants
              (s\<lparr>reservations := sql_update (updateFields b) (now rt) i (reservations s)\<rparr>)
              (filter (\<lambda>r. r_id r = i) (sql_update (updateFields b) (now rt) i (reservations s)))))),
         s\<lparr>reservations := sql_update (updateFields b) (now rt) i (reservations s)\<rparr>))"
  using assms by (simp add: update_reservation_def Let_def)

lemma updateFields_empty:
  "updateFields b = [] \<longleftrightarrow>
     \<not> truthy (date b) \<and> \<not> truthy (time b) \<and> \<not> truthy (people_count b) \<and>
     special_requests b = JUndefined"
  by (simp add: updateFields_def)

lemma fold_set_column:
  "fold set_column (updateFields b) r =
     r\<lparr>r_date := (if truthy (date b) then date b else r_date r),
       r_time := (if truthy (time b) then time b else r_time r),
       r_people_count := (if truthy (people_count b) then people_count b else r_people_count r),
       r_special_requests :=
         (if special_requests b \<noteq> JUndefined then js_or (special_requests b) JNull
          else r_special_requests r)\<rparr>"
  by (simp add: updateFields_def)

text \<open>
  An update of a reservation that is cancelled or completed is refused, and so is the
  cancellation of a cancelled one; the store stays as it was.
\<close>

lemma update_terminal_refused:
  assumes "pool_up s"
    and "filter (\<lambda>r. r_id r = i \<and> r_user_id r = user_id) (reservations s) = x # xs"
    and "r_status x = Cancelled \<or> r_status x = Completed"
  shows "update_reservation rt s True user_id i b =
           (failure 400 ''Cannot modify cancelled or completed reservations'', s)"
  using assms by (auto simp add: update_reservation_def)

lemma cancel_cancelled_refused:
  assumes "pool_up s"
    and "filter (\<lambda>r. r_id r = i \<and> r_user_id r = user_id) (reservations s) = x # xs"
    and "r_status x = Cancelled"
  shows "cancel_reservation rt s user_id i = (failure 400 ''Reservation is already cancelled'', s)"
  using assms by (simp add: cancel_reservation_def)

text \<open>
  Claim C1 says that update and cancel both fail on a reservation whose status is
  cancelled or completed, and leave it as it was. The update handler refuses both
  statuses, but the cancel handler tests for \<^verbatim>\<open>'cancelled'\<close> alone: reservation 2 of
  the example store is completed and belongs to user 1, and its cancellation by
  user 1 succeeds and turns its status into cancelled.
\<close>

theorem cancel_completed_succeeds:
  "map r_id (reservations example_server) = [1, 2, 3] \<and>
   map r_user_id (reservations example_server) = [1, 1, 2] \<and>
   map r_status (reservations example_server) = [Confirmed, Completed, Cancelled] \<and>
   fst (cancel_reservation example_runtime example_server 1 2) =
     Response 200 True (Some ''Reservation cancelled successfully'') NoData \<and>
   map r_status (reservations (snd (cancel_reservation example_runtime example_server 1 2))) =
     [Confirmed, Cancelled, Cancelled] \<and>
   map r_updated_at (reservations (snd (cancel_reservation example_runtime example_server 1 2))) =
     [1718000000000, 1718470800000, 1718200000000]"
  by (simp add: cancel_reservation_def sql_cancel_def example_server_def
      example_reservations_def example_runtime_def)

text \<open>
  Claim C2: when every reservation with id \<open>i\<close> belongs to another user than
  \<open>user_id\<close> (and so also when there is none), reading, updating and cancelling
  reservation \<open>i\<close> as \<open>user_id\<close> answer 404 ``Reservation not found'', the answer for an
  id that does not exist, and the store stays as it was. The store is reachable and
  the update's body passed validation.
\<close>

theorem foreign_reservation_not_found:
  assumes "pool_up s"
    and "\<forall>r \<in> set (reservations s). r_id r = i \<longrightarrow> r_user_id r \<noteq> user_id"
  shows "get_reservation s user_id i = (failure 404 ''Reservation not found'', s) \<and>
         update_reservation rt s True user_id i b = (failure 404 ''Reservation not found'', s) \<and>
         cancel_reservation rt s user_id i = (failure 404 ''Reservation not found'', s)"
proof -
  have "filter (\<lambda>r. r_id r = i \<and> r_user_id r = user_id) (reservations s) = []"
    using assms(2) by (auto simp add: filter_empty_conv)
  then show ?thesis
    using assms(1)
    by (simp add: get_reservation_def update_reservation_def cancel_reservation_def
        join_restaurants_def)
qed

theorem foreign_reservation_not_found_witness:
  "pool_up example_server \<and>
   map r_id (reservations example_server) = [1, 2, 3] \<and>
   map r_user_id (reservations example_server) = [1, 1, 2] \<and>
   get_reservation example_server 1 3 = (failure 404 ''Reservation not found'', example_server) \<and>
   update_reservation example_runtime example_server True 1 3
       \<lparr>date = JUndefined, time = JStr ''21:00'', people_count = JUndefined,
        special_requests = JUndefined\<rparr> =
     (failure 404 ''Reservation not found'', example_server) \<and>
   cancel_reservation example_runtime example_server 1 3 =
     (failure 404 ''Reservation not found'', example_server)"
proof -
  have up: "pool_up example_server"
    by (simp add: example_server_def)
  have other: "\<forall>r \<in> set (reservations example_server). r_id r = 3 \<longrightarrow> r_user_id r \<noteq> 1"
    by (simp add: example_server_def example_reservations_def)
  have ex: "map r_id (reservations example_server) = [1, 2, 3]"
    "map r_user_id (reservations example_server) = [1, 1, 2]"
    by (simp_all add: example_server_def example_reservations_def)
  show ?thesis
    using up ex foreign_reservation_not_found [OF up other] by simp
qed

section \<open>The check of the date\<close>

text \<open>
  How the check compares a date given as \<^verbatim>\<open>YYYY-MM-DD\<close>, which \<^verbatim>\<open>new Date\<close> reads as
  the start of day \<open>d\<close> in UTC, with the start of the current day in local time: a day
  before the current one is always refused, the current day is refused exactly on a
  server whose local time was behind UTC at the start of the day.
\<close>

lemma earlier_day_before_today:
  assumes "d < (now rt + tz_offset rt) div msPerDay" and "tz_offset_midnight rt < msPerDay"
  shows "date_before (Some (d * msPerDay)) (today rt)"
proof -
  have "d + 1 \<le> (now rt + tz_offset rt) div msPerDay"
    using assms(1) by simp
  then have "(d + 1) * msPerDay \<le> ((now rt + tz_offset rt) div msPerDay) * msPerDay"
    by (simp add: msPerDay_def)
  then show ?thesis
    using assms(2) by (simp add: date_before_def today_def algebra_simps)
qed

lemma current_day_before_today:
  "date_before (Some (((now rt + tz_offset rt) div msPerDay) * msPerDay)) (today rt)
     \<longleftrightarrow> tz_offset_midnight rt < 0"
  by (auto simp add: date_before_def today_def)

lemma create_refuses_earlier_day:
  assumes "pool_up s"
    and "filter (\<lambda>rest. rest_id rest = restaurant_id) (restaurants s) \<noteq> []"
    and "Date_parse rt (date b) = Some (d * msPerDay)"
    and "d < (now rt + tz_offset rt) div msPerDay" and "tz_offset_midnight rt < msPerDay"
  shows "create_reservation rt s True user_id restaurant_id b =
           (failure 400 ''Cannot make reservations for past dates'', s)"
  using assms(1-3) earlier_day_before_today [OF assms(4,5)]
  by (simp add: create_reservation_def)

lemma create_accepts_current_day:
  assumes "pool_up s"
    and "filter (\<lambda>rest. rest_id rest = restaurant_id) (restaurants s) \<noteq> []"
    and "filter (\<lambda>u. u_id u = user_id) (users s) \<noteq> []"
    and "Date_parse rt (date b) = Some (((now rt + tz_offset rt) div msPerDay) * msPerDay)"
    and "0 \<le> tz_offset_midnight rt"
    and "not_null (date b)" and "not_null (time b)" and "not_null (people_count b)"
  shows "http_status (fst (create_reservation rt s True user_id restaurant_id b)) = 201 \<and>
         reservations (snd (create_reservation rt s True user_id restaurant_id b)) =
           reservations s @
             [\<lparr>r_id = auto_increment s, r_user_id = user_id, r_restaurant_id = restaurant_id,
               r_date = date b, r_time = time b, r_people_count = people_count b,
               r_status = Confirmed, r_special_requests = js_or (special_requests b) JNull,
               r_created_at = now rt, r_updated_at = now rt\<rparr>]"
  using assms(1-4) current_day_before_today [of rt] assms(5-8)
  by (simp add: create_reservation_def Let_def)

text \<open>
  Claim C3 says that a date before the current day is refused and that the current
  day is accepted. The handler refuses the current day on a server whose local time
  is behind UTC: at noon of 15 June 2024, five hours behind UTC, a reservation for
  \<^verbatim>\<open>2024-06-15\<close> at an existing restaurant is answered by 400 ``Cannot make
  reservations for past dates'', and nothing is stored.
\<close>

theorem create_for_current_day_refused:
  "(now example_runtime + tz_offset example_runtime) div msPerDay = days_from_civil 2024 6 15 \<and>
   Date_parse example_runtime (JStr ''2024-06-15'') = Some (days_from_civil 2024 6 15 * msPerDay) \<and>
   create_reservation example_runtime example_server True 1 1
       \<lparr>date = JStr ''2024-06-15'', time = JStr ''19:30'', people_count = JNum 4,
        special_requests = JUndefined\<rparr> =
     (failure 400 ''Cannot make reservations for past dates'', example_server) \<and>
   update_reservation example_runtime example_server True 1 1
       \<lparr>date = JStr ''2024-06-15'', time = JUndefined, people_count = JUndefined,
        special_requests = JUndefined\<rparr> =
     (failure 400 ''Cannot modify reservation to a past date'', example_server)"
  by (simp add: create_reservation_def update_reservation_def example_runtime_def
      example_server_def example_reservations_def sampleRestaurants_def parse_date_only_def
      digit_def days_from_civil_def msPerDay_def today_def date_before_def)

section \<open>What an update writes\<close>




section \<open>Which fields of an update count as supplied\<close>

lemma sql_update_row:
  assumes "r \<in> set (sql_update sets stamp i rows)" and "r_id r = i"
  shows "\<exists>r0 \<in> set rows. r = (fold set_column sets r0)\<lparr>r_updated_at := stamp\<rparr>"
  using assms unfolding sql_update_def by (auto split: if_splits)

lemma clears_special_requests:
  assumes "special_requests b = JStr []"
  shows "r_special_requests (fold set_column (updateFields b) r) = JNull"
  by (simp add: fold_set_column assms js_or_def)

lemma falsy_toString:
  assumes "\<not> truthy v" and "v \<noteq> JUndefined"
  shows "toString v = [] \<or> toString v = ''false'' \<or> toString v = ''0''"
  using assms by (cases v) (simp_all add: decimal.simps)

lemma matches_time_falsy:
  "\<not> matches_time []" "\<not> matches_time ''false''" "\<not> matches_time ''0''"
  by (simp_all add: matches_time_def digit_def)

lemma isInt_falsy:
  "\<not> isInt 1 20 []" "\<not> isInt 1 20 ''false''" "\<not> isInt 1 20 ''0''"
  by (simp_all add: isInt_def digits_value_def digit_def)

lemma valid_fields_truthy:
  assumes "\<not> isISO8601 rt []" and "\<not> isISO8601 rt ''0''" and "\<not> isISO8601 rt ''false''"
    and "update_valid rt b"
  shows "truthy (date b) \<longleftrightarrow> date b \<noteq> JUndefined"
    and "truthy (time b) \<longleftrightarrow> time b \<noteq> JUndefined"
    and "truthy (people_count b) \<longleftrightarrow> people_count b \<noteq> JUndefined"
proof -
  have d: "date b = JUndefined \<or> isISO8601 rt (toString (date b))"
    and t: "time b = JUndefined \<or> matches_time (toString (time b))"
    and c: "people_count b = JUndefined \<or> isInt 1 20 (toString (people_count b))"
    using assms(4) by (simp_all add: update_valid_def)
  have undefined: "\<not> truthy JUndefined"
    by simp
  show "truthy (date b) \<longleftrightarrow> date b \<noteq> JUndefined"
    using d assms(1-3) falsy_toString [of "date b"] undefined by metis
  show "truthy (time b) \<longleftrightarrow> time b \<noteq> JUndefined"
    using t matches_time_falsy falsy_toString [of "time b"] undefined by metis
  show "truthy (people_count b) \<longleftrightarrow> people_count b \<noteq> JUndefined"
    using c isInt_falsy falsy_toString [of "people_count b"] undefined by metis
qed

lemma falsy_field_invalid:
  assumes "\<not> isISO8601 rt []" and "\<not> isISO8601 rt ''0''" and "\<not> isISO8601 rt ''false''"
    and "(date b \<noteq> JUndefined \<and> \<not> truthy (date b)) \<or>
         (time b \<noteq> JUndefined \<and> \<not> truthy (time b)) \<or>
         (people_count b \<noteq> JUndefined \<and> \<not> truthy (people_count b))"
  shows "\<not> update_valid rt b"
  using assms(4) valid_fields_truthy [OF assms(1-3), of b] by blast

text \<open>
  Claim C10, amended. The chain of the route answers 400 ``Validation failed'', and
  nothing is written, when a date, a time or a people count is given and falsy, the
  empty string among them: such a field does not reach the handler's tests. On a body
  that passes the chain, a date, a time and a people count are truthy exactly when
  they are not \<^verbatim>\<open>undefined\<close>, so that all four fields count as supplied exactly when
  they are not \<^verbatim>\<open>undefined\<close>: for an owned reservation that is neither cancelled
  nor completed, on a reachable store, the answer is ``No fields to update'' exactly
  when all four are \<^verbatim>\<open>undefined\<close>, and special requests that are the empty
  string are written as \<^verbatim>\<open>NULL\<close>. Of \<^verbatim>\<open>isISO8601\<close> the theorem assumes that it refuses
  the strings of the falsy values.
\<close>

theorem supplied_after_validation:
  assumes "\<not> isISO8601 rt []" and "\<not> isISO8601 rt ''0''" and "\<not> isISO8601 rt ''false''"
    and "pool_up s"
    and "filter (\<lambda>r. r_id r = i \<and> r_user_id r = user_id) (reservations s) = x # xs"
    and "r_status x \<noteq> Cancelled" and "r_status x \<noteq> Completed"
  shows "((date b \<noteq> JUndefined \<and> \<not> truthy (date b)) \<or>
          (time b \<noteq> JUndefined \<and> \<not> truthy (time b)) \<or>
          (people_count b \<noteq> JUndefined \<and> \<not> truthy (people_count b)) \<longrightarrow>
            put_reservation rt s user_id i b = (failure 400 ''Validation failed'', s)) \<and>
         (update_valid rt b \<longrightarrow>
            (truthy (date b) \<longleftrightarrow> date b \<noteq> JUndefined) \<and>
            (truthy (time b) \<longleftrightarrow> time b \<noteq> JUndefined) \<and>
            (truthy (people_count b) \<longleftrightarrow> people_count b \<noteq> JUndefined) \<and>
            (fst (put_reservation rt s user_id i b) = failure 400 ''No fields to update''
               \<longleftrightarrow> date b = JUndefined \<and> time b = JUndefined \<and> people_count b = JUndefined \<and>
                   special_requests b = JUndefined)) \<and>
         (update_valid rt b \<and> special_requests b = JStr [] \<and>
          \<not> (truthy (date b) \<and> date_before (Date_parse rt (date b)) (today rt)) \<longrightarrow>
            http_status (fst (put_reservation rt s user_id i b)) = 200 \<and>
            (\<forall>r \<in> set (reservations (snd (put_reservation rt s user_id i b))).
               r_id r = i \<longrightarrow> r_special_requests r = JNull))"
proof -
  note u = owned_update [OF assms(4-7), of rt b]
  have refused: "put_reservation rt s user_id i b = (failure 400 ''Validation failed'', s)"
    if "(date b \<noteq> JUndefined \<and> \<not> truthy (date b)) \<or>
        (time b \<noteq> JUndefined \<and> \<not> truthy (time b)) \<or>
        (people_count b \<noteq> JUndefined \<and> \<not> truthy (people_count b))"
    using falsy_field_invalid [OF assms(1-3) that]
    by (simp add: put_reservation_def update_reservation_def)
  have put: "put_reservation rt s user_id i b = update_reservation rt s True user_id i b"
    if "update_valid rt b"
    using that by (simp add: put_reservation_def)
  have same: "(truthy (date b) \<longleftrightarrow> date b \<noteq> JUndefined) \<and>
      (truthy (time b) \<longleftrightarrow> time b \<noteq> JUndefined) \<and>
      (truthy (people_count b) \<longleftrightarrow> people_count b \<noteq> JUndefined)"
    if "update_valid rt b"
    using valid_fields_truthy [OF assms(1-3) that] by blast
  have no_fields: "fst (put_reservation rt s user_id i b) = failure 400 ''No fields to update''
      \<longleftrightarrow> date b = JUndefined \<and> time b = JUndefined \<and> people_count b = JUndefined \<and>
          special_requests b = JUndefined"
    if v: "update_valid rt b"
  proof (cases "updateFields b = []")
    case True
    then have falsy: "\<not> truthy (date b) \<and> \<not> truthy (time b) \<and>
        \<not> truthy (people_count b) \<and> special_requests b = JUndefined"
      using updateFields_empty [of b] by blast
    have "fst (update_reservation rt s True user_id i b) = failure 400 ''No fields to update''"
      unfolding u using True falsy by simp
    then show ?thesis
      using falsy same [OF v] put [OF v] by simp
  next
    case False
    then have supplied: "\<not> (\<not> truthy (date b) \<and> \<not> truthy (time b) \<and>
        \<not> truthy (people_count b) \<and> special_requests b = JUndefined)"
      using updateFields_empty [of b] by blast
    have "fst (update_reservation rt s True user_id i b) \<noteq>
        failure 400 ''No fields to update''"
      unfolding u using False by (simp add: failure_def)
    then show ?thesis
      using supplied same [OF v] put [OF v] by auto
  qed
  have clears: "http_status (fst (put_reservation rt s user_id i b)) = 200 \<and>
      (\<forall>r \<in> set (reservations (snd (put_reservation rt s user_id i b))).
         r_id r = i \<longrightarrow> r_special_requests r = JNull)"
    if v: "update_valid rt b" and sr: "special_requests b = JStr []"
      and ok: "\<not> (truthy (date b) \<and> date_before (Date_parse rt (date b)) (today rt))"
  proof -
    have "updateFields b \<noteq> []"
      using sr by (simp add: updateFields_empty)
    then have res: "update_reservation rt s True user_id i b =
        (Response 200 True (Some ''Reservation updated successfully'')
           (OneReservation (first_row (join_restaurants
              (s\<lparr>reservations := sql_update (updateFields b) (now rt) i (reservations s)\<rparr>)
              (filter (\<lambda>r. r_id r = i)
                 (sql_update (updateFields b) (now rt) i (reservations s)))))),
         s\<lparr>reservations := sql_update (updateFields b) (now rt) i (reservations s)\<rparr>)"
      using ok by (simp only: u if_False)
    have "\<forall>r \<in> set (sql_update (updateFields b) (now rt) i (reservations s)).
        r_id r = i \<longrightarrow> r_special_requests r = JNull"
      using sql_update_row [of _ "updateFields b" "now rt" i "reservations s"]
        clears_special_requests [OF sr]
      by fastforce
    then show ?thesis
      unfolding put [OF v] res by simp
  qed
  show ?thesis
    using refused same no_fields clears by blast
qed

theorem supplied_after_validation_witness:
  "pool_up example_server \<and>
   put_reservation example_runtime example_server 1 1
       \<lparr>date = JStr [], time = JUndefined, people_count = JUndefined,
        special_requests = JUndefined\<rparr> =
     (failure 400 ''Validation failed'', example_server) \<and>
   update_valid example_runtime
       \<lparr>date = JUndefined, time = JUndefined, people_count = JUndefined,
        special_requests = JStr []\<rparr> \<and>
   http_status (fst (put_reservation example_runtime example_server 1 1
       \<lparr>date = JUndefined, time = JUndefined, people_count = JUndefined,
        special_requests = JStr []\<rparr>)) = 200 \<and>
   map r_special_requests (reservations example_server) =
     [JStr ''Window seat please'', JNull, JNull] \<and>
   map r_special_requests (reservations (snd (put_reservation example_runtime example_server 1 1
       \<lparr>date = JUndefined, time = JUndefined, people_count = JUndefined,
        special_requests = JStr []\<rparr>))) = [JNull, JNull, JNull] \<and>
   fst (put_reservation example_runtime example_server 1 1
       \<lparr>date = JUndefined, time = JUndefined, people_count = JUndefined,
        special_requests = JUndefined\<rparr>) = failure 400 ''No fields to update''"
proof -
  let ?empty_date = "\<lparr>date = JStr [], time = JUndefined, people_count = JUndefined,
    special_requests = JUndefined\<rparr>"
  let ?clear = "\<lparr>date = JUndefined, time = JUndefined, people_count = JUndefined,
    special_requests = JStr []\<rparr>"
  let ?none = "\<lparr>date = JUndefined, time = JUndefined, people_count = JUndefined,
    special_requests = JUndefined\<rparr>"
  have iso: "\<not> isISO8601 example_runtime []" "\<not> isISO8601 example_runtime ''0''"
    "\<not> isISO8601 example_runtime ''false''"
    by (simp_all add: example_runtime_def parse_date_only_def)
  have up: "pool_up example_server"
    by (simp add: example_server_def)
  have own: "filter (\<lambda>r. r_id r = 1 \<and> r_user_id r = 1) (reservations example_server) =
      hd example_reservations # []"
    by (simp add: example_server_def example_reservations_def)
  have st: "r_status (hd example_reservations) \<noteq> Cancelled"
    "r_status (hd example_reservations) \<noteq> Completed"
    by (simp_all add: example_reservations_def)
  have valid: "update_valid example_runtime ?clear" "update_valid example_runtime ?none"
    by (simp_all add: update_valid_def)
  note a = supplied_after_validation [OF iso up own st, of ?empty_date]
  note b = supplied_after_validation [OF iso up own st, of ?clear]
  note c = supplied_after_validation [OF iso up own st, of ?none]
  have "put_reservation example_runtime example_server 1 1 ?empty_date =
      (failure 400 ''Validation failed'', example_server)"
    using a by simp
  moreover have "http_status (fst (put_reservation example_runtime example_server 1 1 ?clear)) = 200"
    using b valid(1) by simp
  moreover have "map r_special_requests (reservations example_server) =
      [JStr ''Window seat please'', JNull, JNull]"
    by (simp add: example_server_def example_reservations_def)
  moreover have "map r_special_requests
      (reservations (snd (put_reservation example_runtime example_server 1 1 ?clear))) =
      [JNull, JNull, JNull]"
    using valid(1)
    by (simp add: put_reservation_def update_reservation_def example_server_def
        example_reservations_def updateFields_def sql_update_def js_or_def Let_def)
  moreover have "fst (put_reservation example_runtime example_server 1 1 ?none) =
      failure 400 ''No fields to update''"
    using c valid(2) by simp
  ultimately show ?thesis
    using up valid(1) by simp
qed

text \<open>
  Claim C10 as it is written fails for the empty date, the empty time and the people
  count 0: the claim has them count as not supplied, so that the first body below
  would change the time alone and the second would be answered ``No fields to
  update''; the route answers both with 400 ``Validation failed''.
\<close>

theorem empty_fields_fail_validation:
  "map r_id (reservations example_server) = [1, 2, 3] \<and>
   map r_user_id (reservations example_server) = [1, 1, 2] \<and>
   map r_status (reservations example_server) = [Confirmed, Completed, Cancelled] \<and>
   put_reservation example_runtime example_server 1 1
       \<lparr>date = JStr [], time = JStr ''21:00'', people_count = JUndefined,
        special_requests = JUndefined\<rparr> =
     (failure 400 ''Validation failed'', example_server) \<and>
   put_reservation example_runtime example_server 1 1
       \<lparr>date = JStr [], time = JStr [], people_count = JNum 0,
        special_requests = JUndefined\<rparr> =
     (failure 400 ''Validation failed'', example_server)"
  by (simp add: put_reservation_def update_reservation_def update_valid_def
      example_runtime_def example_server_def example_reservations_def parse_date_only_def)

section \<open>The listing of a user's reservations\<close>

lemma set_insert_by: "set (insert_by cmp x xs) = insert x (set xs)"
  by (induction xs) auto

lemma set_sort_by: "set (sort_by cmp xs) = set xs"
  by (induction xs) (simp_all add: sort_by_def set_insert_by)

lemma length_insert_by: "length (insert_by cmp x xs) = Suc (length xs)"
  by (induction xs) auto

lemma length_sort_by: "length (sort_by cmp xs) = length xs"
  by (induction xs) (simp_all add: sort_by_def length_insert_by)

lemma join_restaurants_fst:
  "row \<in> set (join_restaurants s rs) \<Longrightarrow> fst row \<in> set rs"
  by (auto simp add: join_restaurants_def)

lemma status_filter_known:
  "status_filter st \<longleftrightarrow>
     st = Some ''confirmed'' \<or> st = Some ''cancelled'' \<or> st = Some ''completed''"
  by (cases st) (auto simp add: status_filter_def)

text \<open>
  Claim C5: on a reachable store, with a page of at least 1 and a limit of at least
  0, a listing whose status filter is one of \<^verbatim>\<open>confirmed\<close>, \<^verbatim>\<open>cancelled\<close> and
  \<^verbatim>\<open>completed\<close> answers 200, returns only reservations of the user with that status
  and reports as total the number of the user's reservations with that status. With
  any other filter the listing is the listing without a filter, for every page and
  limit, and so answers 200 as well.
\<close>

theorem status_filter_applied_or_ignored:
  assumes "pool_up s" and "1 \<le> p" and "0 \<le> l"
  shows "(st = Some ''confirmed'' \<or> st = Some ''cancelled'' \<or> st = Some ''completed'' \<longrightarrow>
           (\<exists>rows.
              list_user_reservations rt s user_id st (Some p) (Some l) =
                (Response 200 True None
                   (ReservationPage rows
                      \<lparr>pg_page = Some p, pg_limit = Some l,
                       pg_total = int (length (filter
                         (\<lambda>r. r_user_id r = user_id \<and> Some (status_name (r_status r)) = st)
                         (reservations s))),
                       pg_pages = js_ceil_div (int (length (filter
                         (\<lambda>r. r_user_id r = user_id \<and> Some (status_name (r_status r)) = st)
                         (reservations s)))) (Some l)\<rparr>), s) \<and>
              (\<forall>row \<in> set rows.
                 r_user_id (fst row) = user_id \<and> Some (status_name (r_status (fst row))) = st))) \<and>
         (\<not> (st = Some ''confirmed'' \<or> st = Some ''cancelled'' \<or> st = Some ''completed'') \<longrightarrow>
            list_user_reservations rt s user_id st page limit =
            list_user_reservations rt s user_id None page limit) \<and>
         http_status (fst (list_user_reservations rt s user_id st (Some p) (Some l))) = 200"
proof -
  have off: "0 \<le> (p - 1) * l"
    using assms(2,3) by simp
  have known: "\<exists>rows.
      list_user_reservations rt s user_id st (Some p) (Some l) =
        (Response 200 True None
           (ReservationPage rows
              \<lparr>pg_page = Some p, pg_limit = Some l,
               pg_total = int (length (filter
                 (\<lambda>r. r_user_id r = user_id \<and> Some (status_name (r_status r)) = st)
                 (reservations s))),
               pg_pages = js_ceil_div (int (length (filter
                 (\<lambda>r. r_user_id r = user_id \<and> Some (status_name (r_status r)) = st)
                 (reservations s)))) (Some l)\<rparr>), s) \<and>
      (\<forall>row \<in> set rows.
         r_user_id (fst row) = user_id \<and> Some (status_name (r_status (fst row))) = st)"
    if k: "st = Some ''confirmed'' \<or> st = Some ''cancelled'' \<or> st = Some ''completed''"
  proof -
    have w: "user_reservations_where user_id st =
        (\<lambda>r. r_user_id r = user_id \<and> Some (status_name (r_status r)) = st)"
      using k by (auto simp add: user_reservations_where_def status_filter_known)
    let ?all = "sort_by (by_date_time_desc rt)
        (join_restaurants s (filter (user_reservations_where user_id st) (reservations s)))"
    let ?rows = "take (nat l) (drop (nat ((p - 1) * l)) ?all)"
    have eq: "list_user_reservations rt s user_id st (Some p) (Some l) =
        (Response 200 True None
           (ReservationPage ?rows
              \<lparr>pg_page = Some p, pg_limit = Some l,
               pg_total = int (length (filter (user_reservations_where user_id st)
                 (reservations s))),
               pg_pages = js_ceil_div (int (length (filter (user_reservations_where user_id st)
                 (reservations s)))) (Some l)\<rparr>), s)"
      using assms(1,3) off
      by (simp add: list_user_reservations_def sql_limit_offset_def js_offset_def Let_def)
    have "fst row \<in> set (filter (user_reservations_where user_id st) (reservations s))"
      if "row \<in> set ?rows" for row
    proof -
      have "row \<in> set ?all"
        using that by (meson in_set_dropD in_set_takeD)
      then show ?thesis
        by (simp only: set_sort_by join_restaurants_fst)
    qed
    then have "\<forall>row \<in> set ?rows.
        r_user_id (fst row) = user_id \<and> Some (status_name (r_status (fst row))) = st"
      by (simp add: w)
    then show ?thesis
      using eq unfolding w by blast
  qed
  have ignored: "list_user_reservations rt s user_id st page limit =
      list_user_reservations rt s user_id None page limit"
    if "\<not> (st = Some ''confirmed'' \<or> st = Some ''cancelled'' \<or> st = Some ''completed'')"
  proof -
    have "user_reservations_where user_id st = user_reservations_where user_id None"
      using that by (auto simp add: user_reservations_where_def status_filter_known)
    then show ?thesis
      by (simp only: list_user_reservations_def)
  qed
  have ok: "http_status (fst (list_user_reservations rt s user_id st (Some p) (Some l))) = 200"
    using assms(1,3) off
    by (simp add: list_user_reservations_def sql_limit_offset_def js_offset_def Let_def)
  show ?thesis
    using known ignored ok by blast
qed

theorem status_filter_applied_or_ignored_witness:
  "pool_up example_server \<and>
   list_user_reservations example_runtime example_server 1 (Some ''confirmed'') (Some 1) (Some 10) =
     (Response 200 True None
        (ReservationPage [(example_reservations ! 0, sampleRestaurants ! 0)]
           \<lparr>pg_page = Some 1, pg_limit = Some 10, pg_total = 1, pg_pages = Some 1\<rparr>),
      example_server) \<and>
   map r_status (reservations example_server) = [Confirmed, Completed, Cancelled] \<and>
   list_user_reservations example_runtime example_server 1 (Some ''pending'') (Some 2) (Some 10) =
   list_user_reservations example_runtime example_server 1 None (Some 2) (Some 10) \<and>
   http_status (fst (list_user_reservations example_runtime example_server 1 (Some ''pending'')
     (Some 1) (Some 10))) = 200"
proof -
  have up: "pool_up example_server"
    by (simp add: example_server_def)
  note other = status_filter_applied_or_ignored [OF up, of 1 10 "Some ''pending''"
      example_runtime 1 "Some 2" "Some 10"]
  have "list_user_reservations example_runtime example_server 1 (Some ''confirmed'')
      (Some 1) (Some 10) =
        (Response 200 True None
           (ReservationPage [(example_reservations ! 0, sampleRestaurants ! 0)]
              \<lparr>pg_page = Some 1, pg_limit = Some 10, pg_total = 1, pg_pages = Some 1\<rparr>),
         example_server)"
    by (simp add: list_user_reservations_def user_reservations_where_def status_filter_def
        sql_limit_offset_def js_offset_def js_ceil_div_def join_restaurants_def sort_by_def
        example_server_def example_reservations_def sampleRestaurants_def)
  moreover have "map r_status (reservations example_server) = [Confirmed, Completed, Cancelled]"
    by (simp add: example_server_def example_reservations_def)
  moreover have
    "list_user_reservations example_runtime example_server 1 (Some ''pending'') (Some 2) (Some 10) =
     list_user_reservations example_runtime example_server 1 None (Some 2) (Some 10)"
    using other by simp
  moreover have "http_status (fst (list_user_reservations example_runtime example_server 1
      (Some ''pending'') (Some 1) (Some 10))) = 200"
    using other by simp
  ultimately show ?thesis
    using up by blast
qed

section \<open>The answers of a failed login\<close>

lemma compare_strings_eq: "compare_strings a b = 0 \<longleftrightarrow> a = b"
  by (simp add: compare_strings_def)

text \<open>
  Where \<^verbatim>\<open>bcrypt.compare\<close> resolves to false, the answer is 401 ``Invalid email or
  password'', the same as for an email that no user has.
\<close>

lemma login_wrong_password:
  assumes "pool_up s1" and "pool_up s2" and "notEmpty password"
    and "filter (\<lambda>u. sql_collate rt (u_email u) email = 0) (users s1) = []"
    and "filter (\<lambda>u. sql_collate rt (u_email u) email = 0) (users s2) = u # us"
    and "bcrypt_compare rt password (u_password u) = Some False"
  shows "login rt s1 True email password = failure 401 ''Invalid email or password'' \<and>
         login rt s2 True email password = failure 401 ''Invalid email or password''"
  using assms by (simp add: login_def)

text \<open>
  Where it rejects, the answer is 500 for an email that a user has and 401 for one
  that no user has.
\<close>

lemma login_rejected_compare:
  assumes "pool_up s1" and "pool_up s2" and "notEmpty password"
    and "filter (\<lambda>u. sql_collate rt (u_email u) email = 0) (users s1) = []"
    and "filter (\<lambda>u. sql_collate rt (u_email u) email = 0) (users s2) = u # us"
    and "bcrypt_compare rt password (u_password u) = None"
  shows "login rt s1 True email password = failure 401 ''Invalid email or password'' \<and>
         login rt s2 True email password = internal_error"
  using assms by (simp add: login_def)

text \<open>
  Claim C8 says that a login with a wrong password is answered with 401 and that the
  answer is the same whether or not a user has the email. The chain asks of the
  password only that it is not empty, so that the number 12345 passes; bcryptjs
  rejects a password that is not a string, and the handler's \<^verbatim>\<open>catch\<close> answers 500,
  which happens only after the user was found: for the email of Ann the answer is 500
  on the store that has her and 401 on the store that has not.
\<close>

theorem login_with_a_number_tells_the_user_exists:
  "map u_email (users example_server) = [''ann@example.com'', ''bob@example.com''] \<and>
   map u_email (users (example_server\<lparr>users := tl example_users\<rparr>)) = [''bob@example.com''] \<and>
   notEmpty (JNum 12345) \<and>
   login example_runtime example_server True ''ann@example.com'' (JNum 12345) =
     failure 500 ''Internal server error'' \<and>
   login example_runtime (example_server\<lparr>users := tl example_users\<rparr>) True
     ''ann@example.com'' (JNum 12345) = failure 401 ''Invalid email or password''"
proof -
  let ?s1 = "example_server\<lparr>users := tl example_users\<rparr>"
  have up: "pool_up ?s1" "pool_up example_server"
    by (simp_all add: example_server_def)
  have filled: "notEmpty (JNum 12345)"
    by (simp add: notEmpty_def decimal.simps)
  have absent: "filter (\<lambda>u. sql_collate example_runtime (u_email u) ''ann@example.com'' = 0)
      (users ?s1) = []"
    by (simp add: example_server_def example_users_def example_runtime_def compare_strings_eq)
  have there: "filter (\<lambda>u. sql_collate example_runtime (u_email u) ''ann@example.com'' = 0)
      (users example_server) = hd example_users # []"
    by (simp add: example_server_def example_users_def example_runtime_def compare_strings_eq)
  have rejects: "bcrypt_compare example_runtime (JNum 12345) (u_password (hd example_users)) = None"
    by (simp add: example_runtime_def)
  have emails: "map u_email (users ?s1) = [''bob@example.com'']"
    "map u_email (users example_server) = [''ann@example.com'', ''bob@example.com'']"
    by (simp_all add: example_server_def example_users_def)
  have "login example_runtime example_server True ''ann@example.com'' (JNum 12345) =
      failure 500 ''Internal server error''"
    using up filled there rejects by (simp add: login_def internal_error_def)
  moreover have "login example_runtime ?s1 True ''ann@example.com'' (JNum 12345) =
      failure 401 ''Invalid email or password''"
    using up filled absent by (simp add: login_def)
  ultimately show ?thesis
    using emails filled by simp
qed

section \<open>The order of the catalog\<close>

lemma sorted_insert_by:
  assumes "consistent cmp" and "sorted_wrt (\<lambda>a b. cmp a b \<le> 0) xs"
  shows "sorted_wrt (\<lambda>a b. cmp a b \<le> 0) (insert_by cmp x xs)"
  using assms(2)
proof (induction xs)
  case Nil
  then show ?case by simp
next
  case (Cons y ys)
  have total: "cmp a b \<le> 0 \<or> cmp b a \<le> 0" for a b
    using assms(1) unfolding consistent_def by blast
  have trans: "cmp a b \<le> 0 \<Longrightarrow> cmp b c \<le> 0 \<Longrightarrow> cmp a c \<le> 0" for a b c
    using assms(1) unfolding consistent_def by blast
  show ?case
  proof (cases "cmp x y \<le> 0")
    case True
    then have "\<forall>z \<in> set ys. cmp x z \<le> 0"
      using Cons.prems trans by auto
    then show ?thesis
      using True Cons.prems by simp
  next
    case False
    then have "cmp y x \<le> 0"
      using total [of x y] by simp
    then show ?thesis
      using False Cons by (auto simp add: set_insert_by)
  qed
qed

lemma sorted_sort_by:
  assumes "consistent cmp"
  shows "sorted_wrt (\<lambda>a b. cmp a b \<le> 0) (sort_by cmp xs)"
proof (induction xs)
  case Nil
  then show ?case by (simp add: sort_by_def)
next
  case (Cons x xs)
  then show ?case
    using sorted_insert_by [OF assms, of "sort_by cmp xs" x] by (simp add: sort_by_def)
qed

text \<open>
  Rating first, descending, then the name in the order of \<open>cmp\<close>: consistent when
  \<open>cmp\<close> is.
\<close>

lemma consistent_rating_then_name:
  assumes "consistent cmp"
  shows "consistent (\<lambda>(a::restaurant) b.
           if rest_rating b \<noteq> rest_rating a then rest_rating b - rest_rating a
           else cmp (rest_name a) (rest_name b))"
proof -
  let ?c = "\<lambda>(a::restaurant) b.
      if rest_rating b \<noteq> rest_rating a then rest_rating b - rest_rating a
      else cmp (rest_name a) (rest_name b)"
  have total: "cmp a b \<le> 0 \<or> cmp b a \<le> 0" for a b
    using assms unfolding consistent_def by blast
  have trans: "cmp a b \<le> 0 \<Longrightarrow> cmp b c \<le> 0 \<Longrightarrow> cmp a c \<le> 0" for a b c
    using assms unfolding consistent_def by blast
  have 1: "?c a b \<le> 0 \<or> ?c b a \<le> 0" for a b
    using total [of "rest_name a" "rest_name b"] by auto
  have 2: "?c a c \<le> 0" if "?c a b \<le> 0" and "?c b c \<le> 0" for a b c
    using that trans [of "rest_name a" "rest_name b" "rest_name c"]
    by (auto split: if_splits)
  show ?thesis
    unfolding consistent_def using 1 2 by blast
qed

lemma rating_then_name_le:
  "(if rest_rating (b::restaurant) \<noteq> rest_rating a then rest_rating b - rest_rating a
    else cmp (rest_name a) (rest_name b)) \<le> 0 \<longleftrightarrow>
   rest_rating a > rest_rating b \<or>
   (rest_rating a = rest_rating b \<and> cmp (rest_name a) (rest_name b) \<le> 0)"
  by auto

lemma sorted_catalog:
  assumes "consistent (localeCompare rt)" and "consistent (sql_collate rt)"
  shows "sorted_wrt
     (\<lambda>a b. rest_rating a > rest_rating b \<or>
        (rest_rating a = rest_rating b \<and>
         (if isUsingInMemory s then localeCompare rt else sql_collate rt)
           (rest_name a) (rest_name b) \<le> 0))
     (catalog rt s search location cuisine)"
proof (cases "isUsingInMemory s")
  case True
  have "sorted_wrt (\<lambda>a b. by_rating_name rt a b \<le> 0)
      (sort_by (by_rating_name rt)
         (filteredRestaurants rt (inMemoryRestaurants s) search location cuisine))"
    using consistent_rating_then_name [OF assms(1)]
    by (intro sorted_sort_by) (simp add: by_rating_name_def [abs_def])
  then show ?thesis
    using True by (simp add: catalog_def by_rating_name_def rating_then_name_le)
next
  case False
  have "sorted_wrt (\<lambda>a b. order_by_rating_name rt a b \<le> 0)
      (sort_by (order_by_rating_name rt)
         (filter (restaurants_where rt search location cuisine) (restaurants s)))"
    using consistent_rating_then_name [OF assms(2)]
    by (intro sorted_sort_by) (simp add: order_by_rating_name_def [abs_def])
  then show ?thesis
    using False by (simp add: catalog_def order_by_rating_name_def rating_then_name_le)
qed

text \<open>A page of the search is a stretch of the catalog.\<close>

lemma page_of_catalog:
  "\<exists>m n. restaurants_of (get_restaurants rt s search location cuisine page limit) =
     take m (drop n (catalog rt s search location cuisine))"
proof (cases "isUsingInMemory s")
  case True
  then show ?thesis
    by (auto simp add: get_restaurants_def getRestaurants_def catalog_def restaurants_of_def
        slice_def Let_def)
next
  case False
  have empty: "[] = take 0 (drop 0 (catalog rt s search location cuisine))"
    by simp
  show ?thesis
  proof (cases "pool_up s")
    case down: False
    then show ?thesis
      using False empty
      by (auto simp add: get_restaurants_def restaurants_of_def internal_error_def failure_def)
  next
    case up: True
    show ?thesis
    proof (cases "sql_limit_offset limit (js_offset page limit)
        (catalog rt s search location cuisine)")
      case None
      then show ?thesis
        using False up empty
        by (auto simp add: get_restaurants_def restaurants_of_def internal_error_def failure_def
            catalog_def)
    next
      case (Some rows)
      then have "\<exists>m n. rows = take m (drop n (catalog rt s search location cuisine))"
        by (auto simp add: sql_limit_offset_def split: option.splits if_splits)
      then show ?thesis
        using False up Some
        by (auto simp add: get_restaurants_def restaurants_of_def catalog_def Let_def)
    qed
  qed
qed

lemma consistent_compare_strings: "consistent compare_strings"
  unfolding consistent_def compare_strings_def by auto

lemma compare_strings_le: "compare_strings a b \<le> 0 \<longleftrightarrow> a \<le> b"
  by (auto simp add: compare_strings_def)

text \<open>
  Claim C6, amended: of two restaurants of a search result, the one listed first has
  the higher rating, or the same rating and a name that is not after the other's in
  the order of names the listing sorts by, that of \<^verbatim>\<open>localeCompare\<close> in memory and
  that of the collation on MySQL, each a consistent comparator; where that order is
  within the order of strings by their characters, the name of the first is at most
  the name of the second in that order.
\<close>

theorem catalog_ordering:
  assumes "consistent (localeCompare rt)" and "consistent (sql_collate rt)"
    and "i < j"
    and "j < length (restaurants_of (get_restaurants rt s search location cuisine page limit))"
  shows "(rest_rating (restaurants_of (get_restaurants rt s search location cuisine page limit) ! i) >
          rest_rating (restaurants_of (get_restaurants rt s search location cuisine page limit) ! j) \<or>
          (rest_rating (restaurants_of (get_restaurants rt s search location cuisine page limit) ! i) =
           rest_rating (restaurants_of (get_restaurants rt s search location cuisine page limit) ! j) \<and>
           (if isUsingInMemory s then localeCompare rt else sql_collate rt)
             (rest_name (restaurants_of (get_restaurants rt s search location cuisine page limit) ! i))
             (rest_name (restaurants_of (get_restaurants rt s search location cuisine page limit) ! j))
             \<le> 0)) \<and>
         ((\<forall>a b. (if isUsingInMemory s then localeCompare rt else sql_collate rt) a b \<le> 0
                   \<longrightarrow> a \<le> b) \<longrightarrow>
          rest_rating (restaurants_of (get_restaurants rt s search location cuisine page limit) ! i) >
          rest_rating (restaurants_of (get_restaurants rt s search location cuisine page limit) ! j) \<or>
          (rest_rating (restaurants_of (get_restaurants rt s search location cuisine page limit) ! i) =
           rest_rating (restaurants_of (get_restaurants rt s search location cuisine page limit) ! j) \<and>
           rest_name (restaurants_of (get_restaurants rt s search location cuisine page limit) ! i)
             \<le> rest_name (restaurants_of (get_restaurants rt s search location cuisine page limit) ! j)))"
proof -
  obtain m n where page:
    "restaurants_of (get_restaurants rt s search location cuisine page limit) =
       take m (drop n (catalog rt s search location cuisine))"
    using page_of_catalog by blast
  have "sorted_wrt
     (\<lambda>a b. rest_rating a > rest_rating b \<or>
        (rest_rating a = rest_rating b \<and>
         (if isUsingInMemory s then localeCompare rt else sql_collate rt)
           (rest_name a) (rest_name b) \<le> 0))
     (restaurants_of (get_restaurants rt s search location cuisine page limit))"
    unfolding page using sorted_catalog [OF assms(1,2)]
    by (intro sorted_wrt_take sorted_wrt_drop)
  then have ordered:
    "rest_rating (restaurants_of (get_restaurants rt s search location cuisine page limit) ! i) >
     rest_rating (restaurants_of (get_restaurants rt s search location cuisine page limit) ! j) \<or>
     (rest_rating (restaurants_of (get_restaurants rt s search location cuisine page limit) ! i) =
      rest_rating (restaurants_of (get_restaurants rt s search location cuisine page limit) ! j) \<and>
      (if isUsingInMemory s then localeCompare rt else sql_collate rt)
        (rest_name (restaurants_of (get_restaurants rt s search location cuisine page limit) ! i))
        (rest_name (restaurants_of (get_restaurants rt s search location cuisine page limit) ! j))
        \<le> 0)"
    using assms(3,4) by (simp only: sorted_wrt_iff_nth_less)
  then show ?thesis
    by blast
qed

theorem catalog_ordering_witness:
  "isUsingInMemory level_fallback_server \<and>
   map rest_name (restaurants_of
      (get_restaurants example_runtime level_fallback_server None None None (Some 1) (Some 10))) =
     [''Le Jardin'', ''Mama Mia Pizzeria'', ''Ocean Breeze'', ''Sakura Sushi'', ''Spice Route'',
      ''The Golden Spoon''] \<and>
   map rest_rating (restaurants_of
      (get_restaurants example_runtime level_fallback_server None None None (Some 1) (Some 10))) =
     [45, 45, 45, 45, 45, 45] \<and>
   rest_name (restaurants_of
      (get_restaurants example_runtime level_fallback_server None None None (Some 1) (Some 10)) ! 0)
     \<le> rest_name (restaurants_of
      (get_restaurants example_runtime level_fallback_server None None None (Some 1) (Some 10)) ! 1) \<and>
   map rest_name (restaurants_of
      (get_restaurants example_runtime level_server None None None (Some 1) (Some 10))) =
     [''Le Jardin'', ''Mama Mia Pizzeria'', ''Ocean Breeze'', ''Sakura Sushi'', ''Spice Route'',
      ''The Golden Spoon''] \<and>
   sql_collate example_runtime
     (rest_name (restaurants_of
        (get_restaurants example_runtime level_server None None None (Some 1) (Some 10)) ! 0))
     (rest_name (restaurants_of
        (get_restaurants example_runtime level_server None None None (Some 1) (Some 10)) ! 1))
     \<le> 0"
proof -
  let ?mem = "restaurants_of
      (get_restaurants example_runtime level_fallback_server None None None (Some 1) (Some 10))"
  let ?rows = "restaurants_of
      (get_restaurants example_runtime level_server None None None (Some 1) (Some 10))"
  have both_mem: "map (\<lambda>r. (rest_name r, rest_rating r)) ?mem =
      [(''Le Jardin'', 45), (''Mama Mia Pizzeria'', 45), (''Ocean Breeze'', 45),
       (''Sakura Sushi'', 45), (''Spice Route'', 45), (''The Golden Spoon'', 45)]"
    by code_simp
  have both: "map (\<lambda>r. (rest_name r, rest_rating r)) ?rows =
      [(''Le Jardin'', 45), (''Mama Mia Pizzeria'', 45), (''Ocean Breeze'', 45),
       (''Sakura Sushi'', 45), (''Spice Route'', 45), (''The Golden Spoon'', 45)]"
    by code_simp
  have names_mem: "map rest_name ?mem =
      [''Le Jardin'', ''Mama Mia Pizzeria'', ''Ocean Breeze'', ''Sakura Sushi'', ''Spice Route'',
       ''The Golden Spoon'']"
    using arg_cong [OF both_mem, of "map fst"] by (simp add: comp_def)
  have ratings_mem: "map rest_rating ?mem = [45, 45, 45, 45, 45, 45]"
    using arg_cong [OF both_mem, of "map snd"] by (simp add: comp_def)
  have names: "map rest_name ?rows =
      [''Le Jardin'', ''Mama Mia Pizzeria'', ''Ocean Breeze'', ''Sakura Sushi'', ''Spice Route'',
       ''The Golden Spoon'']"
    using arg_cong [OF both, of "map fst"] by (simp add: comp_def)
  have ratings: "map rest_rating ?rows = [45, 45, 45, 45, 45, 45]"
    using arg_cong [OF both, of "map snd"] by (simp add: comp_def)
  have len_mem: "length ?mem = 6"
    using arg_cong [OF ratings_mem, of length] by simp
  have len: "length ?rows = 6"
    using arg_cong [OF ratings, of length] by simp
  have cmp: "consistent (localeCompare example_runtime)" "consistent (sql_collate example_runtime)"
    by (simp_all add: example_runtime_def consistent_compare_strings)
  have within: "\<forall>a b. (if isUsingInMemory level_fallback_server
      then localeCompare example_runtime else sql_collate example_runtime) a b \<le> 0 \<longrightarrow> a \<le> b"
    by (simp add: example_runtime_def compare_strings_le)
  have memory: "isUsingInMemory level_fallback_server"
    by (simp add: level_fallback_server_def fallback_server_def initDatabase_def
        createInMemoryData_def)
  have mysql: "\<not> isUsingInMemory level_server"
    by (simp add: level_server_def example_server_def)
  have eq_mem: "rest_rating (?mem ! 0) = 45" "rest_rating (?mem ! 1) = 45"
    using arg_cong [OF ratings_mem, of "\<lambda>xs. xs ! 0"]
      arg_cong [OF ratings_mem, of "\<lambda>xs. xs ! 1"] len_mem
    by simp_all
  have eq: "rest_rating (?rows ! 0) = 45" "rest_rating (?rows ! 1) = 45"
    using arg_cong [OF ratings, of "\<lambda>xs. xs ! 0"] arg_cong [OF ratings, of "\<lambda>xs. xs ! 1"] len
    by simp_all
  have lt: "(0::nat) < 1"
    by simp
  have in_mem: "1 < length ?mem" and in_rows: "1 < length ?rows"
    using len_mem len by simp_all
  have "rest_name (?mem ! 0) \<le> rest_name (?mem ! 1)"
    using catalog_ordering [OF cmp lt in_mem, THEN conjunct2] within eq_mem
    by simp
  moreover have "sql_collate example_runtime (rest_name (?rows ! 0)) (rest_name (?rows ! 1)) \<le> 0"
    using catalog_ordering [OF cmp lt in_rows, THEN conjunct1] eq mysql
    by simp
  ultimately show ?thesis
    using memory names_mem ratings_mem names by simp
qed

text \<open>
  Claim C6 as it is written fails where the order of names is not the order of
  strings by their characters: under an order that ignores case, as that of
  \<^verbatim>\<open>localeCompare\<close> and of the collations that end in \<^verbatim>\<open>_ci\<close>, of two restaurants with
  the same rating \<^verbatim>\<open>apple\<close> is listed before \<^verbatim>\<open>Banana\<close>, and \<^verbatim>\<open>apple\<close> is after \<^verbatim>\<open>Banana\<close>
  in the order by characters.
\<close>

theorem catalog_ordering_ignoring_case:
  "map rest_name (restaurants two_names_server) = [''Banana'', ''apple''] \<and>
   map rest_name (restaurants_of
      (get_restaurants ignoring_case_runtime two_names_server None None None (Some 1) (Some 10))) =
     [''apple'', ''Banana''] \<and>
   map rest_rating (restaurants_of
      (get_restaurants ignoring_case_runtime two_names_server None None None (Some 1) (Some 10))) =
     [45, 45] \<and>
   \<not> ''apple'' \<le> ''Banana''"
proof -
  let ?rows = "restaurants_of
      (get_restaurants ignoring_case_runtime two_names_server None None None (Some 1) (Some 10))"
  have both: "map (\<lambda>r. (rest_name r, rest_rating r)) ?rows = [(''apple'', 45), (''Banana'', 45)]"
    by code_simp
  have names: "map rest_name ?rows = [''apple'', ''Banana'']"
    using arg_cong [OF both, of "map fst"] by (simp add: comp_def)
  have ratings: "map rest_rating ?rows = [45, 45]"
    using arg_cong [OF both, of "map snd"] by (simp add: comp_def)
  have table: "map rest_name (restaurants two_names_server) = [''Banana'', ''apple'']"
    by (simp add: two_names_server_def)
  have after: "\<not> ''apple'' \<le> ''Banana''"
    by code_simp
  show ?thesis
    using table names ratings after by simp
qed

section \<open>The pages of the catalog\<close>

lemma take_min_length: "take (min n (length ys)) ys = take n ys"
  by (cases "n \<le> length ys") (simp_all add: min_def)

lemma slice_take_drop:
  assumes "0 \<le> a" and "0 \<le> b"
  shows "slice xs (Some a) (Some (a + b)) = take (nat b) (drop (nat a) xs)"
proof (cases "nat a \<le> length xs")
  case True
  have i: "slice_index (length xs) (Some a) = nat a"
    using assms(1) True by (simp add: slice_index_def)
  have "slice_index (length xs) (Some (a + b)) = min (nat a + nat b) (length xs)"
    using assms by (simp add: slice_index_def nat_add_distrib)
  then have "slice_index (length xs) (Some (a + b)) - nat a =
      min (nat b) (length (drop (nat a) xs))"
    using True by (auto simp add: min_def)
  then have "slice xs (Some a) (Some (a + b)) =
      take (min (nat b) (length (drop (nat a) xs))) (drop (nat a) xs)"
    by (simp only: slice_def Let_def i)
  then show ?thesis
    by (simp only: take_min_length)
next
  case False
  then show ?thesis
    using assms by (simp add: slice_def slice_index_def)
qed

lemma js_ceil_div_ceiling:
  assumes "l \<noteq> 0"
  shows "js_ceil_div (int n) (Some l) = Some \<lceil>real n / real_of_int l\<rceil>"
  using assms ceiling_divide_eq_div [of "int n" l, where ?'a = real]
  by (simp add: js_ceil_div_def)

lemma concat_chunks:
  "concat (map (\<lambda>k. take n (drop (k * n) xs)) [0..<m]) = take (m * n) xs"
proof (induction m)
  case 0
  then show ?case by simp
next
  case (Suc m)
  have "take (m * n + n) xs = take (m * n) xs @ take n (drop (m * n) xs)"
    by (rule take_add)
  then show ?case
    using Suc by (simp add: add.commute)
qed

lemma upto_from_1: "[1..int m] = map (\<lambda>k. int k + 1) [0..<m]"
proof (induction m)
  case 0
  then show ?case by simp
next
  case (Suc m)
  have "[1..int (Suc m)] = [1..int m] @ [int m + 1]"
    using upto_rec2 [of 1 "int (Suc m)"] by (simp add: add.commute)
  then show ?case
    using Suc by simp
qed

lemma page_of_search:
  assumes "1 \<le> p" and "1 \<le> l" and "isUsingInMemory s \<or> pool_up s"
  shows "get_restaurants rt s search location cuisine (Some p) (Some l) =
     Response 200 True None
       (RestaurantPage
          (take (nat l) (drop (nat ((p - 1) * l)) (catalog rt s search location cuisine)))
          \<lparr>pg_page = Some p, pg_limit = Some l,
           pg_total = int (length (catalog rt s search location cuisine)),
           pg_pages = Some \<lceil>real (length (catalog rt s search location cuisine)) / real_of_int l\<rceil>\<rparr>)"
proof -
  have off: "0 \<le> (p - 1) * l" and l0: "0 \<le> l" "l \<noteq> 0"
    using assms(1,2) by simp_all
  show ?thesis
  proof (cases "isUsingInMemory s")
    case True
    then show ?thesis
      using slice_take_drop [OF off l0(1)] js_ceil_div_ceiling [OF l0(2)]
      by (simp add: get_restaurants_def getRestaurants_def catalog_def js_offset_def js_add_def
          Let_def)
  next
    case False
    then have "pool_up s"
      using assms(3) by simp
    then show ?thesis
      using False off l0 js_ceil_div_ceiling [OF l0(2)]
      by (simp add: get_restaurants_def catalog_def js_offset_def sql_limit_offset_def Let_def
          length_sort_by)
  qed
qed

text \<open>
  Claim C7: a search with page \<open>p \<ge> 1\<close> and limit \<open>l \<ge> 1\<close>, in memory or on a
  reachable MySQL, returns the at most \<open>l\<close> restaurants of the catalog (the restaurants
  that match, in the order of the listing) from offset \<open>(p - 1) * l\<close> on, reports the
  length of the catalog as total and the ceiling of total by limit as the number of
  pages, and the pages from 1 to that number, one after the other, are the catalog.
\<close>

theorem pages_of_the_catalog:
  assumes "1 \<le> p" and "1 \<le> l" and "isUsingInMemory s \<or> pool_up s"
  shows "get_restaurants rt s search location cuisine (Some p) (Some l) =
           Response 200 True None
             (RestaurantPage
                (take (nat l) (drop (nat ((p - 1) * l)) (catalog rt s search location cuisine)))
                \<lparr>pg_page = Some p, pg_limit = Some l,
                 pg_total = int (length (catalog rt s search location cuisine)),
                 pg_pages =
                   Some \<lceil>real (length (catalog rt s search location cuisine)) / real_of_int l\<rceil>\<rparr>) \<and>
         length (restaurants_of (get_restaurants rt s search location cuisine (Some p) (Some l)))
           \<le> nat l \<and>
         concat (map (\<lambda>k. restaurants_of
                   (get_restaurants rt s search location cuisine (Some k) (Some l)))
                 [1..\<lceil>real (length (catalog rt s search location cuisine)) / real_of_int l\<rceil>]) =
           catalog rt s search location cuisine"
proof -
  let ?C = "catalog rt s search location cuisine"
  let ?n = "nat l"
  have page: "restaurants_of (get_restaurants rt s search location cuisine (Some k) (Some l)) =
      take ?n (drop (nat ((k - 1) * l)) ?C)" if "1 \<le> k" for k
    using page_of_search [OF that assms(2,3)] by (simp add: restaurants_of_def)
  have bound: "length (restaurants_of
      (get_restaurants rt s search location cuisine (Some p) (Some l))) \<le> ?n"
    using page [OF assms(1)] by simp
  define m where "m = nat \<lceil>real (length ?C) / real_of_int l\<rceil>"
  have l_pos: "0 < real_of_int l"
    using assms(2) by simp
  have "0 \<le> real (length ?C) / real_of_int l"
    using l_pos by simp
  then have "0 \<le> \<lceil>real (length ?C) / real_of_int l\<rceil>"
    using zero_le_ceiling [of "real (length ?C) / real_of_int l"] by linarith
  then have m_int: "\<lceil>real (length ?C) / real_of_int l\<rceil> = int m"
    by (simp add: m_def)
  have "real (length ?C) / real_of_int l \<le> real_of_int (int m)"
    using le_of_int_ceiling [of "real (length ?C) / real_of_int l"] m_int by simp
  then have "real (length ?C) \<le> real m * real_of_int l"
    using l_pos by (simp add: pos_divide_le_eq)
  then have "real (length ?C) \<le> real (m * ?n)"
    using assms(2) by simp
  then have enough: "length ?C \<le> m * ?n"
    by (simp only: of_nat_le_iff)
  have "concat (map (\<lambda>k. restaurants_of
         (get_restaurants rt s search location cuisine (Some k) (Some l))) [1..int m]) =
      concat (map (\<lambda>k. take ?n (drop (k * ?n) ?C)) [0..<m])"
  proof -
    have "restaurants_of (get_restaurants rt s search location cuisine (Some (int k + 1)) (Some l)) =
        take ?n (drop (k * ?n) ?C)" for k
    proof -
      have "nat ((int k + 1 - 1) * l) = k * ?n"
        using assms(2) by (simp add: nat_mult_distrib)
      then show ?thesis
        using page [of "int k + 1"] by simp
    qed
    then show ?thesis
      by (simp add: upto_from_1 comp_def)
  qed
  also have "\<dots> = take (m * ?n) ?C"
    by (rule concat_chunks)
  also have "\<dots> = ?C"
    using enough by simp
  finally have all: "concat (map (\<lambda>k. restaurants_of
         (get_restaurants rt s search location cuisine (Some k) (Some l))) [1..int m]) = ?C" .
  show ?thesis
    using page_of_search [OF assms, of rt search location cuisine] bound all [folded m_int]
    by blast
qed

theorem pages_of_the_catalog_witness:
  "isUsingInMemory fallback_server \<and>
   map rest_id (catalog example_runtime fallback_server None None None) = [1, 4, 2, 6, 3, 5] \<and>
   get_restaurants example_runtime fallback_server None None None (Some 2) (Some 4) =
     Response 200 True None
       (RestaurantPage
          (take 4 (drop 4 (catalog example_runtime fallback_server None None None)))
          \<lparr>pg_page = Some 2, pg_limit = Some 4, pg_total = 6, pg_pages = Some 2\<rparr>) \<and>
   map rest_id (restaurants_of
     (get_restaurants example_runtime fallback_server None None None (Some 1) (Some 4))) =
     [1, 4, 2, 6] \<and>
   map rest_id (restaurants_of
     (get_restaurants example_runtime fallback_server None None None (Some 2) (Some 4))) =
     [3, 5] \<and>
   restaurants_of
     (get_restaurants example_runtime fallback_server None None None (Some 1) (Some 4)) @
   restaurants_of
     (get_restaurants example_runtime fallback_server None None None (Some 2) (Some 4)) =
     catalog example_runtime fallback_server None None None"
proof -
  let ?C = "catalog example_runtime fallback_server None None None"
  have mem: "isUsingInMemory fallback_server \<or> pool_up fallback_server"
    and mem': "isUsingInMemory fallback_server"
    by (simp_all add: fallback_server_def initDatabase_def createInMemoryData_def)
  have ids: "map rest_id ?C = [1, 4, 2, 6, 3, 5]"
    by code_simp
  have len: "length ?C = 6"
    using arg_cong [OF ids, of length] by simp
  have pages: "\<lceil>real (length ?C) / real_of_int 4\<rceil> = 2"
    unfolding len by simp
  have upto: "[1..2::int] = [1, 2]"
    by (simp add: upto_rec1)
  have h: "(1::int) \<le> 1" "(1::int) \<le> 2" "(1::int) \<le> 4"
    by simp_all
  note p1 = pages_of_the_catalog [OF h(1) h(3) mem, of example_runtime None None None]
  note p2 = pages_of_the_catalog [OF h(2) h(3) mem, of example_runtime None None None]
  have r1: "restaurants_of
      (get_restaurants example_runtime fallback_server None None None (Some 1) (Some 4)) =
      take 4 ?C"
    using p1 by (simp add: restaurants_of_def)
  have r2: "restaurants_of
      (get_restaurants example_runtime fallback_server None None None (Some 2) (Some 4)) =
      take 4 (drop 4 ?C)"
    using p2 by (simp add: restaurants_of_def)
  have i1: "map rest_id (take 4 ?C) = [1, 4, 2, 6]"
    using ids by (simp add: take_map [symmetric])
  have i2: "map rest_id (take 4 (drop 4 ?C)) = [3, 5]"
    using ids by (simp add: take_map [symmetric] drop_map [symmetric])
  have full: "get_restaurants example_runtime fallback_server None None None (Some 2) (Some 4) =
      Response 200 True None
        (RestaurantPage (take 4 (drop 4 ?C))
           \<lparr>pg_page = Some 2, pg_limit = Some 4, pg_total = 6, pg_pages = Some 2\<rparr>)"
    using p2 pages len by simp
  have cat: "restaurants_of
      (get_restaurants example_runtime fallback_server None None None (Some 1) (Some 4)) @
    restaurants_of
      (get_restaurants example_runtime fallback_server None None None (Some 2) (Some 4)) = ?C"
    using p2 [THEN conjunct2, THEN conjunct2] unfolding pages upto by simp
  show ?thesis
    using mem' ids full cat i1 i2 unfolding r1 r2 by simp
qed

section \<open>The server without MySQL\<close>

lemma number_of_simps:
  "json (number_of k) = k"
  "slice_bound len (number_of k) = slice_index len k"
  "num_add (number_of a) (number_of b) = number_of (js_add a b)"
  "num_mul (num_add (number_of a) (Finite (- 1))) (number_of b) = number_of (js_offset a b)"
  "json (num_ceil_div n (number_of k)) = js_ceil_div n k"
  by (cases k; cases a; cases b;
      simp add: number_of_def slice_bound_def slice_index_def num_add_def num_mul_def js_add_def
        js_offset_def num_ceil_div_def js_ceil_div_def)+

lemma query_of_simps:
  "text_of (query_of q) = q"
  "nested (query_of q) = False"
  "given (query_of q) = present q"
  "present q \<Longrightarrow> string_of (query_of q) = the q"
  by (cases q; simp add: query_of_def present_def)+

text \<open>
  On parameters that are strings or absent and on numbers without the infinities the
  route on any query is \<open>get_restaurants\<close>.
\<close>

lemma get_restaurants_query_agrees:
  "get_restaurants_query rt s (query_of search) (query_of location) (query_of cuisine)
     (number_of page) (number_of limit) =
   get_restaurants rt s search location cuisine page limit"
proof -
  have w: "restaurants_where_query rt (query_of search) (query_of location) (query_of cuisine) =
      restaurants_where rt search location cuisine"
    by (rule ext) (auto simp add: restaurants_where_query_def restaurants_where_def query_of_simps)
  show ?thesis
    by (simp add: get_restaurants_query_def get_restaurants_def getRestaurants_query_def
        getRestaurants_def slice_numbers_def slice_def number_of_simps query_of_simps w Let_def
        cong: option.case_cong)
qed

text \<open>
  When the pool cannot connect, \<^verbatim>\<open>initDatabase\<close> switches to the in-memory data. On
  such a server every reservation handler (the body of create and update having
  passed validation) answers 500 and leaves the server as it was, whatever the
  in-memory data hold. The search answers 200 from the in-memory restaurants, for
  every page and limit, unless one of its three parameters is an array or an object,
  and then it answers 500; the lookup of one restaurant answers 200 with the first
  in-memory restaurant of that id and 404 when there is none; the two lists answer
  200.
\<close>

lemma fallback_mode:
  assumes "\<not> pool_up s"
  shows "isUsingInMemory (initDatabase s) \<and> \<not> pool_up (initDatabase s) \<and>
     inMemoryRestaurants (initDatabase s) = sampleRestaurants \<and>
     (isUsingInMemory s \<longrightarrow>
        create_reservation rt s True user_id restaurant_id b = (internal_error, s) \<and>
        list_user_reservations rt s user_id st p l = (internal_error, s) \<and>
        get_reservation s user_id i = (internal_error, s) \<and>
        update_reservation rt s True user_id i b = (internal_error, s) \<and>
        cancel_reservation rt s user_id i = (internal_error, s) \<and>
        get_restaurants_query rt s search location cuisine page limit =
          (if nested search \<or> nested location \<or> nested cuisine then internal_error
           else Response 200 True None
             (RestaurantPage
                (slice_numbers
                   (catalog rt s (text_of search) (text_of location) (text_of cuisine))
                   (num_mul (num_add page (Finite (- 1))) limit)
                   (num_add (num_mul (num_add page (Finite (- 1))) limit) limit))
                \<lparr>pg_page = json page, pg_limit = json limit,
                 pg_total = int (length
                   (catalog rt s (text_of search) (text_of location) (text_of cuisine))),
                 pg_pages = json (num_ceil_div (int (length
                   (catalog rt s (text_of search) (text_of location) (text_of cuisine))))
                   limit)\<rparr>)) \<and>
        get_restaurant s parsed k =
          (case filter (\<lambda>r. Finite (rest_id r) = parsed) (inMemoryRestaurants s) of
             [] \<Rightarrow> failure 404 ''Restaurant not found''
           | r # _ \<Rightarrow> Response 200 True None (OneRestaurant r)) \<and>
        get_cuisines rt s =
          Response 200 True None
            (Names (sort (remdups (map rest_cuisine_type (inMemoryRestaurants s))))) \<and>
        get_locations rt s =
          Response 200 True None
            (Names (sort (remdups (map rest_location (inMemoryRestaurants s))))))"
proof -
  have init: "isUsingInMemory (initDatabase s) \<and> \<not> pool_up (initDatabase s) \<and>
      inMemoryRestaurants (initDatabase s) = sampleRestaurants"
    using assms by (simp add: initDatabase_def createInMemoryData_def)
  have reservations: "create_reservation rt s True user_id restaurant_id b = (internal_error, s)"
    "list_user_reservations rt s user_id st p l = (internal_error, s)"
    "get_reservation s user_id i = (internal_error, s)"
    "update_reservation rt s True user_id i b = (internal_error, s)"
    "cancel_reservation rt s user_id i = (internal_error, s)"
    using assms
    by (simp_all add: create_reservation_def list_user_reservations_def get_reservation_def
        update_reservation_def cancel_reservation_def)
  have search: "get_restaurants_query rt s search location cuisine page limit =
      (if nested search \<or> nested location \<or> nested cuisine then internal_error
       else Response 200 True None
         (RestaurantPage
            (slice_numbers
               (catalog rt s (text_of search) (text_of location) (text_of cuisine))
               (num_mul (num_add page (Finite (- 1))) limit)
               (num_add (num_mul (num_add page (Finite (- 1))) limit) limit))
            \<lparr>pg_page = json page, pg_limit = json limit,
             pg_total = int (length
               (catalog rt s (text_of search) (text_of location) (text_of cuisine))),
             pg_pages = json (num_ceil_div (int (length
               (catalog rt s (text_of search) (text_of location) (text_of cuisine))))
               limit)\<rparr>))"
    if "isUsingInMemory s"
    using that
    by (simp add: get_restaurants_query_def getRestaurants_query_def catalog_def Let_def)
  have one: "get_restaurant s parsed k =
      (case filter (\<lambda>r. Finite (rest_id r) = parsed) (inMemoryRestaurants s) of
         [] \<Rightarrow> failure 404 ''Restaurant not found''
       | r # _ \<Rightarrow> Response 200 True None (OneRestaurant r))"
    if "isUsingInMemory s"
    using that by (simp add: get_restaurant_def)
  have lists: "get_cuisines rt s =
      Response 200 True None (Names (sort (remdups (map rest_cuisine_type (inMemoryRestaurants s)))))"
    "get_locations rt s =
      Response 200 True None (Names (sort (remdups (map rest_location (inMemoryRestaurants s)))))"
    if "isUsingInMemory s"
    using that by (simp_all add: get_cuisines_def get_locations_def get_names_def)
  show ?thesis
    using init reservations search one lists by blast
qed

text \<open>The server that found no MySQL at start-up, on some requests.\<close>

lemma fallback_server_answers:
  "\<not> pool_up fallback_server \<and> isUsingInMemory fallback_server \<and>
   inMemoryRestaurants fallback_server = sampleRestaurants \<and>
   create_reservation example_runtime fallback_server True 1 1
       \<lparr>date = JStr ''2024-06-20'', time = JStr ''19:30'', people_count = JNum 4,
        special_requests = JUndefined\<rparr> = (internal_error, fallback_server) \<and>
   list_user_reservations example_runtime fallback_server 1 None (Some 1) (Some 10) =
     (internal_error, fallback_server) \<and>
   get_reservation fallback_server 1 1 = (internal_error, fallback_server) \<and>
   cancel_reservation example_runtime fallback_server 1 1 = (internal_error, fallback_server) \<and>
   get_restaurant fallback_server (Finite 1) 1 =
     Response 200 True None (OneRestaurant (sampleRestaurants ! 0)) \<and>
   get_restaurant fallback_server (Finite 7) 7 = failure 404 ''Restaurant not found'' \<and>
   get_restaurant fallback_server NaN 0 = failure 404 ''Restaurant not found'' \<and>
   pagination_of (get_restaurants_query example_runtime fallback_server Absent Absent Absent
       (Finite 1) Infinity) =
     Some \<lparr>pg_page = Some 1, pg_limit = None, pg_total = 6, pg_pages = Some 0\<rparr>"
proof -
  have down: "\<not> pool_up fallback_server"
    by (simp add: fallback_server_def initDatabase_def createInMemoryData_def)
  have mem: "isUsingInMemory fallback_server"
    by (simp add: fallback_server_def initDatabase_def createInMemoryData_def)
  have data: "inMemoryRestaurants fallback_server = sampleRestaurants"
    by (simp add: fallback_server_def initDatabase_def createInMemoryData_def)
  note f = fallback_mode [OF down, THEN conjunct2, THEN conjunct2, THEN conjunct2, rule_format,
      OF mem]
  have len: "length (catalog example_runtime fallback_server None None None) = 6"
    by (simp add: catalog_def mem data length_sort_by filteredRestaurants_def present_def
        sampleRestaurants_def)
  have one: "get_restaurant fallback_server (Finite 1) 1 =
      Response 200 True None (OneRestaurant (sampleRestaurants ! 0))"
    "get_restaurant fallback_server (Finite 7) 7 = failure 404 ''Restaurant not found''"
    "get_restaurant fallback_server NaN 0 = failure 404 ''Restaurant not found''"
    by (simp_all add: get_restaurant_def mem data sampleRestaurants_def)
  have pages: "pagination_of (get_restaurants_query example_runtime fallback_server Absent Absent
      Absent (Finite 1) Infinity) =
      Some \<lparr>pg_page = Some 1, pg_limit = None, pg_total = 6, pg_pages = Some 0\<rparr>"
    using f [of example_runtime] len
    by (simp add: pagination_of_def num_ceil_div_def)
  show ?thesis
    using down mem data one pages f [of example_runtime] by simp
qed

text \<open>
  Claim C9 says that in fallback mode the reservation handlers fail and the catalog
  handlers keep succeeding. The reservation handlers do fail, and the catalog handlers
  answer from memory, but the in-memory search calls \<^verbatim>\<open>toLowerCase\<close> on a parameter
  that Express parsed into an array, as for \<^verbatim>\<open>?search[]=sushi\<close>: the call throws and
  the answer is 500, where the same search with a string succeeds and where the
  MySQL branch of the same handler, which puts the parameter into a template literal,
  succeeds.
\<close>

theorem array_search_fails_in_fallback_mode:
  "isUsingInMemory fallback_server \<and>
   get_restaurants_query example_runtime fallback_server (Nested ''sushi'') Absent Absent
     (Finite 1) (Finite 10) = failure 500 ''Internal server error'' \<and>
   map rest_name (restaurants_of
     (get_restaurants_query example_runtime fallback_server (Text ''sushi'') Absent Absent
        (Finite 1) (Finite 10))) = [''Sakura Sushi''] \<and>
   map rest_name (restaurants_of
     (get_restaurants_query example_runtime example_server (Nested ''sushi'') Absent Absent
        (Finite 1) (Finite 10))) = [''Sakura Sushi'']"
proof -
  have mem: "isUsingInMemory fallback_server"
    by (simp add: fallback_server_def initDatabase_def createInMemoryData_def)
  have "get_restaurants_query example_runtime fallback_server (Nested ''sushi'') Absent Absent
      (Finite 1) (Finite 10) = failure 500 ''Internal server error''"
    using mem
    by (simp add: get_restaurants_query_def getRestaurants_query_def internal_error_def)
  moreover have "map rest_name (restaurants_of
      (get_restaurants_query example_runtime fallback_server (Text ''sushi'') Absent Absent
         (Finite 1) (Finite 10))) = [''Sakura Sushi'']"
    by code_simp
  moreover have "map rest_name (restaurants_of
      (get_restaurants_query example_runtime example_server (Nested ''sushi'') Absent Absent
         (Finite 1) (Finite 10))) = [''Sakura Sushi'']"
    by code_simp
  ultimately show ?thesis
    using mem by simp
qed

end
